theory Spec2Isabelle
  imports Main
begin

section \<open>Errors\<close>

text \<open>
  Every \<open>throw new Error(...)\<close> of the sources is one constructor, carrying the text the
  message is built from. \<open>TypeError\<close> stands for the exception the JavaScript runtime
  raises on a property access on \<open>null\<close> or \<open>undefined\<close>; \<open>UnknownProvider\<close> for the
  one \<open>$injector.get\<close> raises on a key nobody registered.
\<close>

datatype error =
    InjectorNotSet
    \<comment> \<open>'Trying to get the AngularJS injector before it being set.'\<close>
  | UnexpectedlySpecified string
    \<comment> \<open>"Error while <action>: 'downgradedModule' unexpectedly specified. ..."\<close>
  | NotSpecified string
    \<comment> \<open>"Error while <action>: 'downgradedModule' not specified. ..."\<close>
  | ModuleNotFound string
    \<comment> \<open>"Error while <action>: Unable to find the specified downgraded module. ..."\<close>
  | NotUpgradeApp string
    \<comment> \<open>"Error while <action>: Not a valid '@angular/upgrade' application. ..."\<close>
  | NotBootstrapped
    \<comment> \<open>'Trying to get the Angular injector before bootstrapping the corresponding Angular module.'\<close>
  | ExpectingComponentFactory string
    \<comment> \<open>`Expecting ComponentFactory for: <type name>`\<close>
  | UnknownProvider string
  | NoSuchModule string
    \<comment> \<open>AngularJS: a module of that name is not available\<close>
  | TypeError

section \<open>The injector handoff cell (\<open>angular1_providers.js\<close>)\<close>

text \<open>
  \<open>var tempInjectorRef = null\<close> is a module-level variable holding \<open>null\<close> or an
  AngularJS injector (an object, hence truthy): \<open>None\<close> is \<open>null\<close>. Each function takes
  the variable's value and returns the new one next to its result.
\<close>

definition setTempInjectorRef :: "'n \<Rightarrow> 'n option \<Rightarrow> 'n option" where
  "setTempInjectorRef injector tempInjectorRef = Some injector"

definition injectorFactory :: "'n option \<Rightarrow> (error + 'n) \<times> 'n option" where
  "injectorFactory tempInjectorRef =
     (case tempInjectorRef of
        None \<Rightarrow> (Inl InjectorNotSet, tempInjectorRef)
      | Some injector \<Rightarrow> (Inr injector, None))"

section \<open>The AngularJS injector and the validation helper (\<open>util.js\<close>)\<close>

text \<open>
  The keys come from \<open>./constants\<close>, which is not among the sources: they are a parameter.
\<close>

record constants =
  UPGRADE_APP_TYPE_KEY :: string
  DOWNGRADED_MODULE_COUNT_KEY :: string
  LAZY_MODULE_REF :: string
  INJECTOR_KEY :: string
  UPGRADE_MODULE_NAME :: string

text \<open>
  A lazy-module reference is the object \<open>{needsNgZone, injector?, promise?}\<close>, with
  \<open>None\<close> for a property that is absent; a promise is known by its identity. What the AngularJS injector serves to this library is a number
  (the application type, the module count) or a lazy-module reference. The injector is
  the map from the keys it \<open>has\<close> to what \<open>get\<close> returns for them.
\<close>

record 'i LazyModuleRef =
  needsNgZone :: bool
  ref_injector :: "'i option"
  ref_promise :: "nat option"

datatype 'i ng1_value = NumberV int | LazyModuleRefV "'i LazyModuleRef"

type_synonym 'i IInjectorService = "string \<rightharpoonup> 'i ng1_value"

definition has :: "'i IInjectorService \<Rightarrow> string \<Rightarrow> bool" where
  "has ng1_injector key = (ng1_injector key \<noteq> None)"

definition get :: "'i IInjectorService \<Rightarrow> string \<Rightarrow> error + 'i ng1_value" where
  "get ng1_injector key =
     (case ng1_injector key of None \<Rightarrow> Inl (UnknownProvider key) | Some v \<Rightarrow> Inr v)"

text \<open>
  \<open>getDowngradedModuleCount\<close> is declared to return a \<open>number\<close>: the count constant
  is only ever written by \<open>downgradeModule\<close>'s configuration block, as a number.
\<close>

definition getDowngradedModuleCount :: "constants \<Rightarrow> 'i IInjectorService \<Rightarrow> int" where
  "getDowngradedModuleCount K ng1_injector =
     (if has ng1_injector (DOWNGRADED_MODULE_COUNT_KEY K)
      then (case ng1_injector (DOWNGRADED_MODULE_COUNT_KEY K) of Some (NumberV n) \<Rightarrow> n | _ \<Rightarrow> 0)
      else 0)"

definition getUpgradeAppType :: "constants \<Rightarrow> 'i IInjectorService \<Rightarrow> 'i ng1_value" where
  "getUpgradeAppType K ng1_injector =
     (if has ng1_injector (UPGRADE_APP_TYPE_KEY K)
      then (case ng1_injector (UPGRADE_APP_TYPE_KEY K) of Some v \<Rightarrow> v | None \<Rightarrow> NumberV 0)
      else NumberV 0 \<comment> \<open>None\<close>)"

text \<open>
  The \<open>switch\<close> compares with \<open>===\<close>: anything that is not the number 1, 2 or 3 takes the
  \<open>default\<close> branch. \<open>downgradedModule\<close> is a string, falsy when empty.
\<close>

definition validateInjectionKey ::
  "constants \<Rightarrow> 'i IInjectorService \<Rightarrow> string \<Rightarrow> string \<Rightarrow> string \<Rightarrow> error + unit" where
  "validateInjectionKey K ng1_injector downgradedModule injectionKey attemptedAction =
     (let upgradeAppType = getUpgradeAppType K ng1_injector;
          downgradedModuleCount = getDowngradedModuleCount K ng1_injector
      in if upgradeAppType = NumberV 1 \<comment> \<open>Dynamic\<close> \<or> upgradeAppType = NumberV 2 \<comment> \<open>Static\<close> then
           (if downgradedModule \<noteq> [] then Inl (UnexpectedlySpecified attemptedAction)
            else Inr ())
         else if upgradeAppType = NumberV 3 \<comment> \<open>Lite\<close> then
           (if downgradedModule = [] \<and> downgradedModuleCount \<ge> 2
            then Inl (NotSpecified attemptedAction)
            else if \<not> has ng1_injector injectionKey then Inl (ModuleNotFound attemptedAction)
            else Inr ())
         else Inl (NotUpgradeApp attemptedAction))"

section \<open>The lazy module registrar (\<open>downgrade_module.js\<close>)\<close>

text \<open>
  The template literal \<open>`...${++moduleUid}`\<close> renders the counter in decimal.
  \<open>moduleUid\<close> is a JavaScript number that only ever counts up from 0 by one; it is
  modelled as a natural number.
\<close>

definition digit :: "nat \<Rightarrow> char" where
  "digit d = ''0123456789'' ! d"

fun numberToString :: "nat \<Rightarrow> string" where
  "numberToString n =
     (if n < 10 then [digit n] else numberToString (n div 10) @ [digit (n mod 10)])"

declare numberToString.simps [simp del]

text \<open>
  What one call of \<open>downgradeModule\<close> hands to \<open>angular.module(name, [])\<close>: the constant,
  the four factories and the configuration block, as data. The argument is either a
  bootstrap function or an \<open>NgModuleFactory\<close>, which is wrapped into a function calling
  \<open>platformBrowser(extraProviders).bootstrapModuleFactory\<close>.
\<close>

datatype ('fn, 'mf) moduleFactoryOrBootstrapFn = Function 'fn | NgModuleFactory 'mf

datatype ('fn, 'mf) bootstrapFn = Given 'fn | PlatformBrowserBootstrap 'mf

datatype ('fn, 'mf) provider =
    Constant int
    \<comment> \<open>\<open>.constant(key, value)\<close>\<close>
  | IdentityOf string
    \<comment> \<open>\<open>.factory(key, [dependency, identity])\<close>\<close>
  | LazyInjectorFactory
    \<comment> \<open>\<open>() => { if (!injector) throw ...; return injector; }\<close>\<close>
  | LazyModuleRefFactory "('fn, 'mf) bootstrapFn"
    \<comment> \<open>\<open>[$INJECTOR, ($injector) => { setTempInjectorRef($injector); ... }]\<close>\<close>

datatype config = IncrementDowngradedModuleCount
  \<comment> \<open>\<open>[$INJECTOR, $PROVIDE, ($injector, $provide) => $provide.constant(..., count + 1)]\<close>\<close>

record ('fn, 'mf) ng1_module =
  requires :: "string list"
  providers :: "(string \<times> ('fn, 'mf) provider) list"
  configBlocks :: "config list"

text \<open>
  The state outside the call: the counter \<open>moduleUid\<close> of this file and the registry of
  AngularJS modules, where \<open>angular.module(name, requires)\<close> creates or replaces a module.
\<close>

record ('fn, 'mf) registrar =
  moduleUid :: nat
  modules :: "string \<rightharpoonup> ('fn, 'mf) ng1_module"

definition downgradeModule ::
  "constants \<Rightarrow> ('fn, 'mf) moduleFactoryOrBootstrapFn \<Rightarrow> ('fn, 'mf) registrar
     \<Rightarrow> string \<times> ('fn, 'mf) registrar" where
  "downgradeModule K moduleFactoryOrBootstrapFn g =
     (let uid = moduleUid g + 1;
          lazyModuleName = UPGRADE_MODULE_NAME K @ ''.lazy'' @ numberToString uid;
          lazyModuleRefKey = LAZY_MODULE_REF K @ lazyModuleName;
          lazyInjectorKey = INJECTOR_KEY K @ lazyModuleName;
          bootstrap =
            (case moduleFactoryOrBootstrapFn of
               Function f \<Rightarrow> Given f
             | NgModuleFactory m \<Rightarrow> PlatformBrowserBootstrap m);
          module =
            \<lparr>requires = [],
             providers =
               [(UPGRADE_APP_TYPE_KEY K, Constant 3 \<comment> \<open>Lite\<close>),
                (INJECTOR_KEY K, IdentityOf lazyInjectorKey),
                (lazyInjectorKey, LazyInjectorFactory),
                (LAZY_MODULE_REF K, IdentityOf lazyModuleRefKey),
                (lazyModuleRefKey, LazyModuleRefFactory bootstrap)],
             configBlocks = [IncrementDowngradedModuleCount]\<rparr>
      in (lazyModuleName,
          g\<lparr>moduleUid := uid, modules := (modules g)(lazyModuleName \<mapsto> module)\<rparr>))"

text \<open>N calls in a row, each on the state the previous one left; the names in call order.\<close>

fun downgradeModules ::
  "constants \<Rightarrow> ('fn, 'mf) moduleFactoryOrBootstrapFn list \<Rightarrow> ('fn, 'mf) registrar
     \<Rightarrow> string list \<times> ('fn, 'mf) registrar" where
  "downgradeModules K [] g = ([], g)"
| "downgradeModules K (b # bs) g =
     (case downgradeModule K b g of
        (name, g') \<Rightarrow> (case downgradeModules K bs g' of (names, g'') \<Rightarrow> (name # names, g'')))"

text \<open>
  The configuration block, with \<open>$provide.constant(key, value)\<close> as an update of the
  injector's map.
\<close>

definition configBlock :: "constants \<Rightarrow> config \<Rightarrow> 'i IInjectorService \<Rightarrow> 'i IInjectorService" where
  "configBlock K c ng1_injector =
     (case c of
        IncrementDowngradedModuleCount \<Rightarrow>
          ng1_injector(DOWNGRADED_MODULE_COUNT_KEY K \<mapsto>
            NumberV (getDowngradedModuleCount K ng1_injector + 1)))"

text \<open>
  AngularJS itself is outside the sources. What is modelled of it: loading a module
  registers its constants and then runs its configuration blocks in order, a module is
  loaded once however often it is listed, and a name that was never registered is an
  error. The modules here require no other module. A factory is called on demand,
  later (see \<open>serve\<close> below for the lazy-module reference); registering it leaves the
  constants as they are, the keys of the factories being taken to differ from those of
  the two constants.
\<close>

fun registerProvider ::
  "string \<times> ('fn, 'mf) provider \<Rightarrow> 'i IInjectorService \<Rightarrow> 'i IInjectorService" where
  "registerProvider (key, Constant v) ng1_injector = ng1_injector(key \<mapsto> NumberV v)"
| "registerProvider (key, _) ng1_injector = ng1_injector"

definition loadModule ::
  "constants \<Rightarrow> ('fn, 'mf) ng1_module \<Rightarrow> 'i IInjectorService \<Rightarrow> 'i IInjectorService" where
  "loadModule K m ng1_injector =
     fold (configBlock K) (configBlocks m) (fold registerProvider (providers m) ng1_injector)"

fun loadModules ::
  "constants \<Rightarrow> (string \<rightharpoonup> ('fn, 'mf) ng1_module) \<Rightarrow> string list \<Rightarrow> string list
     \<Rightarrow> 'i IInjectorService \<Rightarrow> error + 'i IInjectorService" where
  "loadModules K registry loaded [] ng1_injector = Inr ng1_injector"
| "loadModules K registry loaded (name # names) ng1_injector =
     (if name \<in> set loaded then loadModules K registry loaded names ng1_injector
      else (case registry name of
              None \<Rightarrow> Inl (NoSuchModule name)
            | Some m \<Rightarrow>
                loadModules K registry (name # loaded) names (loadModule K m ng1_injector)))"

subsection \<open>The factories of one lazy module\<close>

text \<open>
  The factories close over \<open>let injector\<close> of their call of \<open>downgradeModule\<close> and
  write the handoff cell. \<open>bootstrapFn\<close> returns a promise (\<open>Promise<NgModuleRef<T>>\<close>),
  and a promise runs a \<open>then\<close> callback in a later microtask, never inside the call of
  \<open>then\<close>: the callback \<open>ref => {...}\<close> is a job of the queue \<open>microtasks\<close> from the
  moment the bootstrap promise is fulfilled, holding the \<open>ref\<close> it will receive.
\<close>

datatype 'm promise_state = Pending | Fulfilled 'm | Rejected

record ('n, 'm, 'i) lazy_module =
  tempInjectorRef :: "'n option"
  closure_injector :: "'i option"
  result :: "'i LazyModuleRef option"
  microtasks :: "'m list"

text \<open>The factory registered under \<open>lazyInjectorKey\<close>.\<close>

definition lazyInjectorFactory :: "('n, 'm, 'i) lazy_module \<Rightarrow> error + 'i" where
  "lazyInjectorFactory s =
     (case closure_injector s of None \<Rightarrow> Inl NotBootstrapped | Some i \<Rightarrow> Inr i)"

text \<open>
  The factory registered under \<open>lazyModuleRefKey\<close>. \<open>bootstrapped\<close> is the state of
  the promise \<open>bootstrapFn(angular1Providers)\<close> returned, \<open>p\<close> the identity of the promise
  its \<open>then\<close> returns. The \<open>result\<close> object has no \<open>injector\<close> property yet.
\<close>

definition lazyModuleRefFactory ::
  "'n \<Rightarrow> 'm promise_state \<Rightarrow> nat \<Rightarrow> ('n, 'm, 'i) lazy_module
     \<Rightarrow> 'i LazyModuleRef \<times> ('n, 'm, 'i) lazy_module" where
  "lazyModuleRefFactory ng1_injector bootstrapped p s =
     (let s1 = s\<lparr>tempInjectorRef := setTempInjectorRef ng1_injector (tempInjectorRef s)\<rparr>;
          s2 = (case bootstrapped of
                  Fulfilled ref \<Rightarrow> s1\<lparr>microtasks := microtasks s1 @ [ref]\<rparr>
                | _ \<Rightarrow> s1);
          r = \<lparr>needsNgZone = True, ref_injector = None, ref_promise = Some p\<rparr>
      in (r, s2\<lparr>result := Some r\<rparr>))"

text \<open>
  The callback \<open>ref => { injector = result.injector = new NgAdapterInjector(ref.injector);
  injector.get($INJECTOR); return injector; }\<close>. \<open>NgAdapterInjector\<close> (of \<open>./util\<close>) is a
  parameter, applied to \<open>ref.injector\<close>. \<open>injector.get($INJECTOR)\<close> asks the module injector
  for \<open>'$injector'\<close>, which \<open>angular1Providers\<close> provides through \<open>injectorFactory\<close>.
  The result is what the promise \<open>p\<close> settles to.
\<close>

definition bootstrapThen ::
  "('m \<Rightarrow> 'i) \<Rightarrow> 'm \<Rightarrow> ('n, 'm, 'i) lazy_module \<Rightarrow> (error + 'i) \<times> ('n, 'm, 'i) lazy_module" where
  "bootstrapThen NgAdapterInjector ref s =
     (let i = NgAdapterInjector ref;
          s1 = s\<lparr>closure_injector := Some i,
                 result := map_option (\<lambda>r. r\<lparr>ref_injector := Some i\<rparr>) (result s)\<rparr>
      in case injectorFactory (tempInjectorRef s1) of
           (Inl e, t) \<Rightarrow> (Inl e, s1\<lparr>tempInjectorRef := t\<rparr>)
         | (Inr _, t) \<Rightarrow> (Inr i, s1\<lparr>tempInjectorRef := t\<rparr>))"

text \<open>Running the first job of the queue, if there is one.\<close>

definition runMicrotask ::
  "('m \<Rightarrow> 'i) \<Rightarrow> ('n, 'm, 'i) lazy_module
     \<Rightarrow> (error + 'i) option \<times> ('n, 'm, 'i) lazy_module" where
  "runMicrotask NgAdapterInjector s =
     (case microtasks s of
        [] \<Rightarrow> (None, s)
      | ref # rest \<Rightarrow>
          (case bootstrapThen NgAdapterInjector ref (s\<lparr>microtasks := rest\<rparr>) of
             (r, s') \<Rightarrow> (Some r, s')))"

section \<open>Gluing \<open>ng-model\<close> to a component (\<open>util.js\<close>)\<close>

text \<open>
  The component is the instance of a component, an object. A property of it is a
  function or something else (\<open>undefined\<close> included); \<open>typeof v === 'function'\<close> tells
  them apart. What the component does when one of its functions is called is its own
  business: the call is recorded in \<open>received\<close>. The model controller is
  \<open>null\<close>/\<open>undefined\<close> (\<open>None\<close>) or an \<open>INgModelController\<close>, whose \<open>$render\<close> is the
  function it had or the closure
  \<open>function () { component.writeValue(ngModel.$viewValue); }\<close>.
\<close>

datatype 'f property = IsFunction 'f | NotFunction

datatype callback =
    SetViewValueBound  \<comment> \<open>\<open>ngModel.$setViewValue.bind(ngModel)\<close>\<close>
  | SetTouchedBound    \<comment> \<open>\<open>ngModel.$setTouched.bind(ngModel)\<close>\<close>

datatype call = RegisterOnChange callback | RegisterOnTouched callback

record 'f component_instance =
  writeValue :: "'f property"
  registerOnChange :: "'f property"
  registerOnTouched :: "'f property"
  received :: "call list"

datatype 'r render = Render 'r | WriteViewValue

record ('r, 'v) INgModelController =
  render :: "'r render"
  viewValue :: 'v

definition typeof_function :: "'f property \<Rightarrow> bool" where
  "typeof_function v = (case v of IsFunction _ \<Rightarrow> True | NotFunction \<Rightarrow> False)"

definition supportsNgModel :: "'f component_instance \<Rightarrow> bool" where
  "supportsNgModel component =
     (typeof_function (writeValue component) \<and> typeof_function (registerOnChange component))"

definition hookupNgModel ::
  "('r, 'v) INgModelController option \<Rightarrow> 'f component_instance
     \<Rightarrow> ('r, 'v) INgModelController option \<times> 'f component_instance" where
  "hookupNgModel ngModel component =
     (case ngModel of
        None \<Rightarrow> (ngModel, component)
      | Some m \<Rightarrow>
          if supportsNgModel component then
            (let m1 = m\<lparr>render := WriteViewValue\<rparr>;
                 c1 = component\<lparr>received :=
                        received component @ [RegisterOnChange SetViewValueBound]\<rparr>;
                 c2 = (if typeof_function (registerOnTouched c1)
                       then c1\<lparr>received := received c1 @ [RegisterOnTouched SetTouchedBound]\<rparr>
                       else c1)
             in (Some m1, c2))
          else (ngModel, component))"

section \<open>The parent-injector promise (\<open>downgrade_component.js\<close>)\<close>

definition controllerKey :: "string \<Rightarrow> string" where
  "controllerKey name = ''$'' @ name @ ''Controller''"

text \<open>
  \<open>element.data(key, value)\<close> writes the element's data store, which holds under the
  injector key either the promise object itself or the raw injector. The record has the
  fields of the object (\<open>this_injector\<close> is \<open>undefined\<close>, \<open>None\<close>, until \<open>resolve\<close>, and
  \<open>this_element\<close> is the element or, after \<open>resolve\<close>, \<open>null\<close>) and, next to them, what the
  object acts on: the data of the elements, and the calls of callbacks. A callback is
  known by its identity; what it does is its own business, and calling it is recorded,
  with its argument, in \<open>called\<close>. An injector is an object, hence truthy.
\<close>

datatype 'i data_value = ThePromise | RawInjector 'i

record ('i, 'cb) ParentInjectorPromise =
  this_element :: "nat option"
  this_injectorKey :: string
  this_callbacks :: "'cb list"
  this_injector :: "'i option"
  element_data :: "nat \<Rightarrow> string \<rightharpoonup> 'i data_value"
  called :: "('cb \<times> 'i) list"

definition new_ParentInjectorPromise ::
  "constants \<Rightarrow> nat \<Rightarrow> (nat \<Rightarrow> string \<rightharpoonup> 'i data_value) \<Rightarrow> ('i, 'cb) ParentInjectorPromise" where
  "new_ParentInjectorPromise K element store =
     (let injectorKey = controllerKey (INJECTOR_KEY K)
      in \<lparr>this_element = Some element,
          this_injectorKey = injectorKey,
          this_callbacks = [],
          this_injector = None,
          element_data = store(element := (store element)(injectorKey \<mapsto> ThePromise)),
          called = []\<rparr>)"

definition then' :: "'cb \<Rightarrow> ('i, 'cb) ParentInjectorPromise \<Rightarrow> ('i, 'cb) ParentInjectorPromise" where
  "then' callback this =
     (case this_injector this of
        Some i \<Rightarrow> this\<lparr>called := called this @ [(callback, i)]\<rparr>
      | None \<Rightarrow> this\<lparr>this_callbacks := this_callbacks this @ [callback]\<rparr>)"

text \<open>
  \<open>this.element.data(...)\<close> on the released element (\<open>null\<close>) is a \<open>TypeError\<close>, raised
  after \<open>this.injector\<close> has been assigned.
\<close>

definition resolve ::
  "'i \<Rightarrow> ('i, 'cb) ParentInjectorPromise \<Rightarrow> error + ('i, 'cb) ParentInjectorPromise" where
  "resolve injector this =
     (let t1 = this\<lparr>this_injector := Some injector\<rparr>
      in case this_element t1 of
           None \<Rightarrow> Inl TypeError
         | Some element \<Rightarrow>
             (let t2 = t1\<lparr>element_data :=
                          (element_data t1)(element :=
                             (element_data t1 element)(this_injectorKey t1 \<mapsto> RawInjector injector))\<rparr>;
                  t3 = t2\<lparr>this_element := None\<rparr>;
                  t4 = t3\<lparr>called := called t3 @ map (\<lambda>callback. (callback, injector)) (this_callbacks t3)\<rparr>
              in Inr (t4\<lparr>this_callbacks := []\<rparr>)))"

text \<open>A run of the object's two operations, stopping at the first exception.\<close>

datatype ('i, 'cb) invocation = Then 'cb | Resolve 'i

fun run ::
  "('i, 'cb) invocation list \<Rightarrow> ('i, 'cb) ParentInjectorPromise \<Rightarrow> error + ('i, 'cb) ParentInjectorPromise" where
  "run [] this = Inr this"
| "run (Then callback # ms) this = run ms (then' callback this)"
| "run (Resolve injector # ms) this =
     (case resolve injector this of Inl e \<Rightarrow> Inl e | Inr this' \<Rightarrow> run ms this')"

section \<open>The downgraded-component directive (\<open>downgrade_component.js\<close>)\<close>

text \<open>
  \<open>getTypeName\<close> reads three strings of the component type; an empty (or absent) one is
  falsy, and \<open>split('\n')[0]\<close> is the text before the first line feed.
\<close>

record Type =
  type_overriddenName :: string
  type_name :: string
  type_toString :: string

definition getTypeName :: "Type \<Rightarrow> string" where
  "getTypeName t =
     (if type_overriddenName t \<noteq> [] then type_overriddenName t
      else if type_name t \<noteq> [] then type_name t
      else takeWhile (\<lambda>c. c \<noteq> CHR 0x0A) (type_toString t))"

record info =
  component :: Type
  downgradedModule :: "string option"
  propagateDigest :: "bool option"

text \<open>
  A value that stands for an injector is an Angular injector, which has no \<open>then\<close>, or a
  thenable, known by its identity: the promise of a lazy-module reference, or the
  \<open>ParentInjectorPromise\<close> an ancestor element still carries. \<open>None\<close> is \<open>undefined\<close> or
  \<open>null\<close>, and \<open>a || b\<close> on such values is \<open>or_else\<close>.
\<close>

datatype 'i injector_like = Injector 'i | Thenable nat

definition or_else :: "'a option \<Rightarrow> 'a option \<Rightarrow> 'a option" where
  "or_else a b = (case a of Some x \<Rightarrow> Some x | None \<Rightarrow> b)"

text \<open>\<open>isFunction(obj.then)\<close>; reading \<open>then\<close> of \<open>undefined\<close> is a \<open>TypeError\<close>.\<close>

definition isThenable :: "'i injector_like option \<Rightarrow> error + bool" where
  "isThenable obj =
     (case obj of
        None \<Rightarrow> Inl TypeError
      | Some (Thenable _) \<Rightarrow> Inr True
      | Some (Injector _) \<Rightarrow> Inr False)"

definition isNgUpgradeLite :: "constants \<Rightarrow> 'i IInjectorService \<Rightarrow> bool" where
  "isNgUpgradeLite K ng1_injector = (getUpgradeAppType K ng1_injector = NumberV 3)"

definition hasMultipleDowngradedModules :: "constants \<Rightarrow> 'i IInjectorService \<Rightarrow> bool" where
  "hasMultipleDowngradedModules K ng1_injector =
     (isNgUpgradeLite K ng1_injector \<and> getDowngradedModuleCount K ng1_injector > 1)"

text \<open>
  The \<open>DowngradeComponentAdapter\<close> and Angular are outside the sources. What they answer
  is a parameter; what is asked of them is recorded, in order, in \<open>trace\<close>.
\<close>

record ('i, 'f) angular =
  resolveComponentFactory :: "'i \<Rightarrow> Type \<Rightarrow> 'f option"
    \<comment> \<open>\<open>moduleInjector.get(ComponentFactoryResolver).resolveComponentFactory(info.component)\<close>\<close>
  getInjector :: "'i \<Rightarrow> 'f \<Rightarrow> 'i"
    \<comment> \<open>\<open>facade.getInjector()\<close> of the adapter made with that injector and factory\<close>

datatype ('i, 'f) event =
    GetNgZone 'i                  \<comment> \<open>\<open>pInjector.get(NgZone)\<close>\<close>
  | NgZoneRun                     \<comment> \<open>\<open>ngZone.run(cb)\<close>\<close>
  | ResolveComponentFactory 'i
  | NewAdapter 'i 'f              \<comment> \<open>\<open>new DowngradeComponentAdapter(..., injector, ..., componentFactory, ...)\<close>\<close>
  | CompileContents
  | CreateComponent
  | SetupInputs bool "bool option"
  | SetupOutputs
  | RegisterCleanup
  | EvalAsync                     \<comment> \<open>\<open>scope.$evalAsync(() => {})\<close>\<close>

text \<open>
  The variables of one call of \<open>link\<close>: its \<open>ranAsync\<close>, the directive's \<open>ngZone\<close>
  (\<open>None\<close> until it is fetched; the injector it was fetched from stands for it), the
  data of the elements, and \<open>awaiting\<close>: the two values handed to \<open>Promise.all\<close> whose
  \<open>then\<close> callback has not run yet.
\<close>

record ('i, 'f) link_state =
  ranAsync :: bool
  ngZone :: "'i option"
  awaiting :: "('i injector_like \<times> 'i injector_like) option"
  trace :: "('i, 'f) event list"
  store :: "nat \<Rightarrow> string \<rightharpoonup> 'i data_value"

text \<open>The calls \<open>doDowngrade\<close> makes on the adapter, from its construction on.\<close>

definition adapterCalls ::
  "constants \<Rightarrow> info \<Rightarrow> 'i IInjectorService \<Rightarrow> 'i \<Rightarrow> 'f \<Rightarrow> ('i, 'f) event list" where
  "adapterCalls K info ng1_injector injector componentFactory =
     [NewAdapter injector componentFactory, CompileContents, CreateComponent,
      SetupInputs (isNgUpgradeLite K ng1_injector) (propagateDigest info),
      SetupOutputs, RegisterCleanup]"

definition doDowngrade ::
  "constants \<Rightarrow> info \<Rightarrow> 'i IInjectorService \<Rightarrow> ('i, 'f) angular \<Rightarrow> nat
     \<Rightarrow> 'i \<Rightarrow> 'i \<Rightarrow> ('i, 'f) link_state \<Rightarrow> error + ('i, 'f) link_state" where
  "doDowngrade K info ng1_injector A element injector moduleInjector st =
     (case resolveComponentFactory A moduleInjector (component info) of
        None \<Rightarrow> Inl (ExpectingComponentFactory (getTypeName (component info)))
      | Some componentFactory \<Rightarrow>
          (let injectorPromise =
                 (new_ParentInjectorPromise K element (store st) :: ('i, unit) ParentInjectorPromise);
               facade = adapterCalls K info ng1_injector injector componentFactory
           in case resolve (getInjector A injector componentFactory) injectorPromise of
                Inl e \<Rightarrow> Inl e
              | Inr p \<Rightarrow>
                  Inr (st\<lparr>store := element_data p,
                          trace := trace st @ [ResolveComponentFactory moduleInjector] @ facade
                                   @ (if ranAsync st then [EvalAsync] else [])\<rparr>)))"

text \<open>
  \<open>wrapCallback(cb)()\<close> calls \<open>cb\<close> at once: directly when \<open>NgZone.isInAngularZone()\<close>,
  through \<open>ngZone.run\<close> otherwise.
\<close>

definition downgradeFn ::
  "constants \<Rightarrow> info \<Rightarrow> 'i IInjectorService \<Rightarrow> ('i, 'f) angular \<Rightarrow> nat \<Rightarrow> bool
     \<Rightarrow> 'i \<Rightarrow> 'i \<Rightarrow> ('i, 'f) link_state \<Rightarrow> error + ('i, 'f) link_state" where
  "downgradeFn K info ng1_injector A element isInAngularZone pInjector mInjector st =
     (if \<not> isNgUpgradeLite K ng1_injector
      then doDowngrade K info ng1_injector A element pInjector mInjector st
      else (let st1 = (if ngZone st = None
                       then st\<lparr>ngZone := Some pInjector, trace := trace st @ [GetNgZone pInjector]\<rparr>
                       else st);
                st2 = (if isInAngularZone then st1 else st1\<lparr>trace := trace st1 @ [NgZoneRun]\<rparr>)
            in doDowngrade K info ng1_injector A element pInjector mInjector st2))"

text \<open>
  What \<open>downgradeFn\<close> asks of the zone before it calls \<open>doDowngrade\<close>, as a list
  of its own; the properties below are stated with it.
\<close>

definition zoneCalls ::
  "constants \<Rightarrow> 'i IInjectorService \<Rightarrow> bool \<Rightarrow> 'i \<Rightarrow> ('i, 'f) link_state \<Rightarrow> ('i, 'f) event list" where
  "zoneCalls K ng1_injector isInAngularZone pInjector st =
     (if isNgUpgradeLite K ng1_injector
      then (if ngZone st = None then [GetNgZone pInjector] else [])
           @ (if isInAngularZone then [] else [NgZoneRun])
      else [])"

text \<open>
  Lines 527 to 532 of the source: the validated lookup of this component's lazy module.
  A number under the key has no \<open>injector\<close> and no \<open>promise\<close> property.
\<close>

definition lookupModuleInjector ::
  "constants \<Rightarrow> info \<Rightarrow> 'i IInjectorService \<Rightarrow> error + 'i injector_like option" where
  "lookupModuleInjector K info ng1_injector =
     (let module = (case downgradedModule info of None \<Rightarrow> [] | Some m \<Rightarrow> m);
          lazyModuleRefKey = LAZY_MODULE_REF K @ module;
          attemptedAction =
            ''instantiating component '' @ [CHR 0x27] @ getTypeName (component info) @ [CHR 0x27]
      in case validateInjectionKey K ng1_injector module lazyModuleRefKey attemptedAction of
           Inl e \<Rightarrow> Inl e
         | Inr _ \<Rightarrow>
             (case get ng1_injector lazyModuleRefKey of
                Inl e \<Rightarrow> Inl e
              | Inr (NumberV _) \<Rightarrow> Inr None
              | Inr (LazyModuleRefV lazyModuleRef) \<Rightarrow>
                  Inr (or_else (map_option Injector (ref_injector lazyModuleRef))
                               (map_option Thenable (ref_promise lazyModuleRef)))))"

text \<open>
  Lines 600 to 607: \<open>Promise.all([...]).then(...)\<close> leaves the two values in \<open>awaiting\<close>;
  \<open>ranAsync = true\<close> is the last statement of \<open>link\<close>.
\<close>

definition downgradeNowOrLater ::
  "constants \<Rightarrow> info \<Rightarrow> 'i IInjectorService \<Rightarrow> ('i, 'f) angular \<Rightarrow> nat \<Rightarrow> bool
     \<Rightarrow> 'i injector_like option \<Rightarrow> 'i injector_like option
     \<Rightarrow> ('i, 'f) link_state \<Rightarrow> error + ('i, 'f) link_state" where
  "downgradeNowOrLater K info ng1_injector A element isInAngularZone
       finalParentInjector finalModuleInjector st =
     (case isThenable finalParentInjector of
        Inl e \<Rightarrow> Inl e
      | Inr parentThenable \<Rightarrow>
          (case (if parentThenable then Inr True else isThenable finalModuleInjector) of
             Inl e \<Rightarrow> Inl e
           | Inr thenable \<Rightarrow>
               (case (finalParentInjector, finalModuleInjector) of
                  (Some p, Some m) \<Rightarrow>
                    if thenable then Inr (st\<lparr>awaiting := Some (p, m), ranAsync := True\<rparr>)
                    else (case (p, m) of
                            (Injector pInjector, Injector mInjector) \<Rightarrow>
                              (case downgradeFn K info ng1_injector A element isInAngularZone
                                      pInjector mInjector st of
                                 Inl e \<Rightarrow> Inl e
                               | Inr st' \<Rightarrow> Inr (st'\<lparr>ranAsync := True\<rparr>))
                          | _ \<Rightarrow> Inl TypeError)
                | _ \<Rightarrow> Inl TypeError)))"

text \<open>
  \<open>moduleInjector\<close> stays \<open>undefined\<close> unless there is no parent injector or there are
  several downgraded modules; the two final injectors are the two \<open>||\<close> of lines 567
  and 571.
\<close>

definition moduleInjectorOf ::
  "constants \<Rightarrow> info \<Rightarrow> 'i IInjectorService \<Rightarrow> 'i injector_like option
     \<Rightarrow> error + 'i injector_like option" where
  "moduleInjectorOf K info ng1_injector parentInjector =
     (if parentInjector = None \<or> hasMultipleDowngradedModules K ng1_injector
      then lookupModuleInjector K info ng1_injector
      else Inr None)"

definition finalParentInjector ::
  "'i injector_like option \<Rightarrow> 'i injector_like option \<Rightarrow> 'i injector_like option" where
  "finalParentInjector parentInjector moduleInjector = or_else parentInjector moduleInjector"

definition finalModuleInjector ::
  "'i injector_like option \<Rightarrow> 'i injector_like option \<Rightarrow> 'i injector_like option" where
  "finalModuleInjector parentInjector moduleInjector = or_else moduleInjector parentInjector"

definition link ::
  "constants \<Rightarrow> info \<Rightarrow> 'i IInjectorService \<Rightarrow> ('i, 'f) angular \<Rightarrow> nat
     \<Rightarrow> 'i injector_like option \<Rightarrow> bool \<Rightarrow> ('i, 'f) link_state \<Rightarrow> error + ('i, 'f) link_state" where
  "link K info ng1_injector A element parentInjector isInAngularZone st0 =
     (let st = st0\<lparr>ranAsync := False, awaiting := None\<rparr>
      in case moduleInjectorOf K info ng1_injector parentInjector of
           Inl e \<Rightarrow> Inl e
         | Inr moduleInjector \<Rightarrow>
             downgradeNowOrLater K info ng1_injector A element isInAngularZone
               (finalParentInjector parentInjector moduleInjector)
               (finalModuleInjector parentInjector moduleInjector) st)"

text \<open>
  The callback of \<open>Promise.all([...]).then\<close> runs once, in a later turn, when both values
  are there: a thenable's when \<open>settled\<close> has it, an injector's at once.
\<close>

definition fulfilled :: "(nat \<Rightarrow> 'i option) \<Rightarrow> 'i injector_like \<Rightarrow> 'i option" where
  "fulfilled settled x = (case x of Injector i \<Rightarrow> Some i | Thenable t \<Rightarrow> settled t)"

definition afterPromiseAll ::
  "constants \<Rightarrow> info \<Rightarrow> 'i IInjectorService \<Rightarrow> ('i, 'f) angular \<Rightarrow> nat \<Rightarrow> bool
     \<Rightarrow> (nat \<Rightarrow> 'i option) \<Rightarrow> ('i, 'f) link_state \<Rightarrow> error + ('i, 'f) link_state" where
  "afterPromiseAll K info ng1_injector A element isInAngularZone settled st =
     (case awaiting st of
        None \<Rightarrow> Inr st
      | Some (p, m) \<Rightarrow>
          (case (fulfilled settled p, fulfilled settled m) of
             (Some pInjector, Some mInjector) \<Rightarrow>
               downgradeFn K info ng1_injector A element isInAngularZone pInjector mInjector
                 (st\<lparr>awaiting := None\<rparr>)
           | _ \<Rightarrow> Inr st))"

subsection \<open>The lazy-module reference as the injector serves it\<close>

text \<open>
  AngularJS calls the factory under \<open>lazyModuleRefKey\<close> at the first \<open>get\<close> of that
  key, or of \<open>LAZY_MODULE_REF\<close>, which the identity factory maps to it, and serves the
  object the factory returned from then on. That object is the lazy module's \<open>result\<close>:
  \<open>serve\<close> is the injector as it answers once the factory has run, with the object in
  the state it is in at the time of the \<open>get\<close>.
\<close>

definition serve ::
  "constants \<Rightarrow> string \<Rightarrow> 'i LazyModuleRef option \<Rightarrow> 'i IInjectorService \<Rightarrow> 'i IInjectorService" where
  "serve K lazyModuleName r ng1_injector =
     (case r of
        None \<Rightarrow> ng1_injector
      | Some lazyModuleRef \<Rightarrow>
          ng1_injector(LAZY_MODULE_REF K @ lazyModuleName \<mapsto> LazyModuleRefV lazyModuleRef,
                       LAZY_MODULE_REF K \<mapsto> LazyModuleRefV lazyModuleRef))"

text \<open>
  A Lite application whose injector serves \<open>r\<close> as the lazy-module reference of the
  component's module, the module being named or the only one.
\<close>

definition servesLazyModule ::
  "constants \<Rightarrow> info \<Rightarrow> 'i IInjectorService \<Rightarrow> 'i LazyModuleRef \<Rightarrow> bool" where
  "servesLazyModule K info ng1_injector r =
     (let module = (case downgradedModule info of None \<Rightarrow> [] | Some m \<Rightarrow> m)
      in isNgUpgradeLite K ng1_injector \<and>
         (module \<noteq> [] \<or> getDowngradedModuleCount K ng1_injector < 2) \<and>
         ng1_injector (LAZY_MODULE_REF K @ module) = Some (LazyModuleRefV r))"

section \<open>Example data\<close>

text \<open>
  Concrete inputs for the examples below: a choice of keys, injectors of an application
  in each mode, and the state of the registrar and of a lazy module when the program
  starts (\<open>let moduleUid = 0\<close>, \<open>var tempInjectorRef = null\<close>, \<open>let injector\<close>).
\<close>

definition exampleConstants :: constants where
  "exampleConstants =
     \<lparr>UPGRADE_APP_TYPE_KEY = ''$$angularUpgradeAppType'',
      DOWNGRADED_MODULE_COUNT_KEY = ''$$angularDowngradedModuleCount'',
      LAZY_MODULE_REF = ''$$angularLazyModuleRef'',
      INJECTOR_KEY = ''$$angularInjector'',
      UPGRADE_MODULE_NAME = ''$$UpgradeModule''\<rparr>"

definition liteInjector :: "int \<Rightarrow> nat IInjectorService" where
  "liteInjector n =
     [UPGRADE_APP_TYPE_KEY exampleConstants \<mapsto> NumberV 3,
      DOWNGRADED_MODULE_COUNT_KEY exampleConstants \<mapsto> NumberV n,
      ''$$angularLazyModuleRef$$UpgradeModule.lazy1'' \<mapsto>
         LazyModuleRefV \<lparr>needsNgZone = True, ref_injector = None, ref_promise = Some 0\<rparr>]"

definition legacyInjector :: "int \<Rightarrow> nat IInjectorService" where
  "legacyInjector appType =
     [UPGRADE_APP_TYPE_KEY exampleConstants \<mapsto> NumberV appType,
      ''$$angularLazyModuleRef'' \<mapsto>
         LazyModuleRefV \<lparr>needsNgZone = False, ref_injector = Some 0, ref_promise = None\<rparr>]"

definition initialRegistrar :: "(nat, nat) registrar" where
  "initialRegistrar = \<lparr>moduleUid = 0, modules = Map.empty\<rparr>"

definition initialLazyModule :: "(nat, nat, nat) lazy_module" where
  "initialLazyModule =
     \<lparr>tempInjectorRef = None, closure_injector = None, result = None, microtasks = []\<rparr>"

text \<open>
  A component type with a factory, a link that starts with nothing recorded, and what the
  thenables have settled to at two moments.
\<close>

definition exampleInfo :: "string option \<Rightarrow> info" where
  "exampleInfo m =
     \<lparr>component = \<lparr>type_overriddenName = [], type_name = ''Ng2Heroes'',
                    type_toString = ''class Ng2Heroes {}''\<rparr>,
      downgradedModule = m,
      propagateDigest = None\<rparr>"

definition exampleAngular :: "(nat, nat) angular" where
  "exampleAngular =
     \<lparr>resolveComponentFactory = (\<lambda>i t. if type_name t = ''Ng2Heroes'' then Some 42 else None),
      getInjector = (\<lambda>i f. i + 100)\<rparr>"

definition initialLink :: "(nat, nat) link_state" where
  "initialLink =
     \<lparr>ranAsync = False, ngZone = None, awaiting = None, trace = [], store = (\<lambda>e. Map.empty)\<rparr>"

definition settledWith :: "nat \<Rightarrow> nat \<Rightarrow> nat \<Rightarrow> nat option" where
  "settledWith t i = (\<lambda>t'. if t' = t then Some i else None)"

definition notSettled :: "nat \<Rightarrow> nat option" where
  "notSettled = (\<lambda>t. None)"

text \<open>
  One lazy module whose bootstrap function returns an already fulfilled promise (of the
  module reference 5, with \<open>Suc\<close> for \<open>NgAdapterInjector\<close>): the state when the factory
  has just run at the first \<open>get\<close>, and the injector then and after the microtask.
\<close>

definition lazyApp :: "nat IInjectorService" where
  "lazyApp =
     [UPGRADE_APP_TYPE_KEY exampleConstants \<mapsto> NumberV 3,
      DOWNGRADED_MODULE_COUNT_KEY exampleConstants \<mapsto> NumberV 1]"

definition syncBootstrap :: "nat LazyModuleRef \<times> (nat, nat, nat) lazy_module" where
  "syncBootstrap = lazyModuleRefFactory 0 (Fulfilled 5) 0 initialLazyModule"

definition firstGetInjector :: "nat IInjectorService" where
  "firstGetInjector =
     serve exampleConstants ''$$UpgradeModule.lazy1'' (result (snd syncBootstrap)) lazyApp"

definition laterGetInjector :: "nat IInjectorService" where
  "laterGetInjector =
     serve exampleConstants ''$$UpgradeModule.lazy1''
       (result (snd (runMicrotask Suc (snd syncBootstrap)))) lazyApp"

text \<open>
  A name of the registry carries a module as \<open>downgradeModule\<close> makes it: one
  configuration block, and no constant but the application type.
\<close>

definition lazyModuleAt ::
  "constants \<Rightarrow> (string \<rightharpoonup> ('fn, 'mf) ng1_module) \<Rightarrow> string \<Rightarrow> bool" where
  "lazyModuleAt K registry n =
     (case registry n of
        None \<Rightarrow> False
      | Some m \<Rightarrow>
          configBlocks m = [IncrementDowngradedModuleCount] \<and>
          list_all (\<lambda>kp. case snd kp of Constant _ \<Rightarrow> fst kp = UPGRADE_APP_TYPE_KEY K | _ \<Rightarrow> True)
            (providers m))"

section \<open>Properties\<close>

subsection \<open>The handoff cell\<close>

text \<open>
  C5. \<open>injectorFactory\<close> throws whenever the slot is empty and leaves it empty; after
  \<open>setTempInjectorRef i\<close> it returns \<open>i\<close> and clears the slot, so that a second read
  with no write in between throws as well.
\<close>

theorem handoff_cell_read_once:
  "injectorFactory None = (Inl InjectorNotSet, None) \<and>
   injectorFactory (setTempInjectorRef i r) = (Inr i, None) \<and>
   fst (injectorFactory (snd (injectorFactory (setTempInjectorRef i r)))) = Inl InjectorNotSet"
  by (simp add: injectorFactory_def setTempInjectorRef_def)

subsection \<open>The validation helper\<close>

lemma lite_type: "getUpgradeAppType exampleConstants (liteInjector n) = NumberV 3"
  by (simp add: getUpgradeAppType_def has_def liteInjector_def exampleConstants_def)

lemma lite_count: "getDowngradedModuleCount exampleConstants (liteInjector n) = n"
  by (simp add: getDowngradedModuleCount_def has_def liteInjector_def exampleConstants_def)

lemma lite_has:
  "has (liteInjector n) ''$$angularLazyModuleRef$$UpgradeModule.lazy1''"
  "\<not> has (liteInjector n) ''$$angularLazyModuleRef$$UpgradeModule.lazy7''"
  "\<not> has (liteInjector n) ''$$angularLazyModuleRef''"
  by (simp_all add: has_def liteInjector_def exampleConstants_def)

lemma legacy_type: "getUpgradeAppType exampleConstants (legacyInjector n) = NumberV n"
  by (simp add: getUpgradeAppType_def has_def legacyInjector_def exampleConstants_def)

text \<open>
  C6. In Lite mode \<open>validateInjectionKey\<close> throws "not specified" when no module name is
  given and the recorded count is at least 2; otherwise it throws "unable to find" when
  the injector does not have the injection key; otherwise (a named module whose key
  exists, or no name, a count below 2 and an existing key) it returns normally.
\<close>

theorem validateInjectionKey_Lite:
  assumes "getUpgradeAppType K ng1_injector = NumberV 3"
  shows "validateInjectionKey K ng1_injector m key action =
           (if m = [] \<and> 2 \<le> getDowngradedModuleCount K ng1_injector then Inl (NotSpecified action)
            else if \<not> has ng1_injector key then Inl (ModuleNotFound action)
            else Inr ())"
  using assms by (simp add: validateInjectionKey_def)

text \<open>
  With two modules registered: no name throws, the name of an existing module passes,
  the name of a module that was never downgraded throws; with one module, no name passes.
\<close>

theorem validateInjectionKey_Lite_witness:
  "getUpgradeAppType exampleConstants (liteInjector 2) = NumberV 3 \<and>
   validateInjectionKey exampleConstants (liteInjector 2) []
     ''$$angularLazyModuleRef'' ''a'' = Inl (NotSpecified ''a'') \<and>
   validateInjectionKey exampleConstants (liteInjector 2) ''$$UpgradeModule.lazy1''
     ''$$angularLazyModuleRef$$UpgradeModule.lazy1'' ''a'' = Inr () \<and>
   validateInjectionKey exampleConstants (liteInjector 2) ''$$UpgradeModule.lazy7''
     ''$$angularLazyModuleRef$$UpgradeModule.lazy7'' ''a'' = Inl (ModuleNotFound ''a'') \<and>
   validateInjectionKey exampleConstants (liteInjector 1) []
     ''$$angularLazyModuleRef$$UpgradeModule.lazy1'' ''a'' = Inr ()"
  using validateInjectionKey_Lite [OF lite_type, of 2 "[]" "''$$angularLazyModuleRef''" "''a''"]
        validateInjectionKey_Lite [OF lite_type, of 2 "''$$UpgradeModule.lazy1''"
          "''$$angularLazyModuleRef$$UpgradeModule.lazy1''" "''a''"]
        validateInjectionKey_Lite [OF lite_type, of 2 "''$$UpgradeModule.lazy7''"
          "''$$angularLazyModuleRef$$UpgradeModule.lazy7''" "''a''"]
        validateInjectionKey_Lite [OF lite_type, of 1 "[]"
          "''$$angularLazyModuleRef$$UpgradeModule.lazy1''" "''a''"]
  by (simp add: lite_type lite_count lite_has)

text \<open>
  C7. In Dynamic or Static mode \<open>validateInjectionKey\<close> throws exactly when a non-empty
  module name is given; with the empty name it returns normally, whatever the key.
\<close>

theorem validateInjectionKey_legacy:
  assumes "getUpgradeAppType K ng1_injector = NumberV 1 \<or>
           getUpgradeAppType K ng1_injector = NumberV 2"
  shows "validateInjectionKey K ng1_injector m key action =
           (if m \<noteq> [] then Inl (UnexpectedlySpecified action) else Inr ())"
  using assms by (auto simp add: validateInjectionKey_def)

theorem validateInjectionKey_legacy_witness:
  "getUpgradeAppType exampleConstants (legacyInjector 2) = NumberV 2 \<and>
   validateInjectionKey exampleConstants (legacyInjector 2) ''$$UpgradeModule.lazy1''
     ''$$angularLazyModuleRef$$UpgradeModule.lazy1'' ''a'' = Inl (UnexpectedlySpecified ''a'') \<and>
   validateInjectionKey exampleConstants (legacyInjector 2) []
     ''$$angularLazyModuleRef'' ''a'' = Inr () \<and>
   getUpgradeAppType exampleConstants (legacyInjector 1) = NumberV 1 \<and>
   validateInjectionKey exampleConstants (legacyInjector 1) []
     ''$$angularLazyModuleRef'' ''a'' = Inr ()"
  using validateInjectionKey_legacy [of exampleConstants "legacyInjector 2"
          "''$$UpgradeModule.lazy1''" "''$$angularLazyModuleRef$$UpgradeModule.lazy1''" "''a''"]
        validateInjectionKey_legacy [of exampleConstants "legacyInjector 2"
          "[]" "''$$angularLazyModuleRef''" "''a''"]
        validateInjectionKey_legacy [of exampleConstants "legacyInjector 1"
          "[]" "''$$angularLazyModuleRef''" "''a''"]
  by (simp add: legacy_type)

subsection \<open>The injector factory of a lazy module\<close>

text \<open>
  C9. As long as the closure's \<open>injector\<close> is unset, which running the lazy-module-reference
  factory does not change, the factory under \<open>lazyInjectorKey\<close> throws; once the
  \<open>then\<close> callback of the bootstrap promise has run it returns the injector the callback
  stored, also after further calls of the other factory.
\<close>

theorem lazyInjectorFactory_contract:
  "(closure_injector s = None \<longrightarrow>
      lazyInjectorFactory s = Inl NotBootstrapped \<and>
      lazyInjectorFactory (snd (lazyModuleRefFactory n b p s)) = Inl NotBootstrapped) \<and>
   lazyInjectorFactory (snd (bootstrapThen N ref s)) = Inr (N ref) \<and>
   lazyInjectorFactory (snd (lazyModuleRefFactory n b p (snd (bootstrapThen N ref s)))) = Inr (N ref)"
  by (auto simp add: lazyInjectorFactory_def lazyModuleRefFactory_def bootstrapThen_def Let_def
        split: promise_state.splits prod.splits sum.splits)

theorem lazyInjectorFactory_contract_witness:
  "closure_injector initialLazyModule = None \<and>
   lazyInjectorFactory initialLazyModule = Inl NotBootstrapped \<and>
   lazyInjectorFactory (snd (lazyModuleRefFactory (1::nat) (Fulfilled 5) 0 initialLazyModule))
     = Inl NotBootstrapped \<and>
   lazyInjectorFactory (snd (bootstrapThen Suc 5 initialLazyModule)) = Inr 6"
  using lazyInjectorFactory_contract [of initialLazyModule 1 "Fulfilled 5" 0 Suc 5]
  by (simp add: initialLazyModule_def)

subsection \<open>Gluing \<open>ng-model\<close>\<close>

text \<open>
  C10. \<open>hookupNgModel\<close> replaces \<open>$render\<close>, registers the view-value callback and, only
  when \<open>registerOnTouched\<close> is a function too, the touched callback, exactly when there is
  a model controller and the component's \<open>writeValue\<close> and \<open>registerOnChange\<close> are
  functions; in every other case both arguments come back unchanged.
\<close>

theorem hookupNgModel_frame:
  "hookupNgModel ngModel c =
     (if ngModel \<noteq> None \<and> typeof_function (writeValue c) \<and> typeof_function (registerOnChange c)
      then (map_option (\<lambda>m. m\<lparr>render := WriteViewValue\<rparr>) ngModel,
            c\<lparr>received := received c @ RegisterOnChange SetViewValueBound #
                 (if typeof_function (registerOnTouched c)
                  then [RegisterOnTouched SetTouchedBound] else [])\<rparr>)
      else (ngModel, c))"
  by (cases ngModel) (simp_all add: hookupNgModel_def supportsNgModel_def Let_def)

subsection \<open>The registrar\<close>

lemma below_ten: "(a::nat) < 10 \<Longrightarrow> a \<in> {0, 1, 2, 3, 4, 5, 6, 7, 8, 9}"
  by auto

lemma digit_inj: "a < 10 \<Longrightarrow> b < 10 \<Longrightarrow> digit a = digit b \<Longrightarrow> a = b"
  using below_ten [of a] below_ten [of b] by (auto simp add: digit_def)

lemma numberToString_length: "Suc 0 \<le> length (numberToString n)"
  by (subst numberToString.simps) simp

lemma numberToString_length_ge10: "10 \<le> n \<Longrightarrow> 2 \<le> length (numberToString n)"
  using numberToString_length [of "n div 10"] by (subst numberToString.simps) simp

lemma numberToString_inj: "numberToString m = numberToString n \<Longrightarrow> m = n"
proof (induction m arbitrary: n rule: numberToString.induct)
  case (1 m)
  show ?case
  proof (cases "m < 10")
    case True
    show ?thesis
    proof (cases "n < 10")
      case n: True
      from "1.prems" True n have "digit m = digit n"
        by (simp add: numberToString.simps [of m] numberToString.simps [of n])
      with True n show ?thesis by (simp add: digit_inj)
    next
      case False
      then have "2 \<le> length (numberToString n)" by (simp add: numberToString_length_ge10)
      moreover from True have "length (numberToString m) = 1"
        by (simp add: numberToString.simps [of m])
      ultimately show ?thesis using "1.prems" by simp
    qed
  next
    case False
    show ?thesis
    proof (cases "n < 10")
      case True
      from False have "2 \<le> length (numberToString m)" by (simp add: numberToString_length_ge10)
      moreover from True have "length (numberToString n) = 1"
        by (simp add: numberToString.simps [of n])
      ultimately show ?thesis using "1.prems" by simp
    next
      case n: False
      from "1.prems" False n
      have eq: "numberToString (m div 10) @ [digit (m mod 10)] =
                numberToString (n div 10) @ [digit (n mod 10)]"
        by (simp add: numberToString.simps [of m] numberToString.simps [of n])
      then have "numberToString (m div 10) = numberToString (n div 10)"
        and d: "digit (m mod 10) = digit (n mod 10)" by simp_all
      with "1.IH" False have "m div 10 = n div 10" by simp
      moreover have "m mod 10 = n mod 10"
        by (rule digit_inj [OF _ _ d]) simp_all
      ultimately show ?thesis by (metis div_mult_mod_eq)
    qed
  qed
qed


lemma downgradeModule_name:
  "fst (downgradeModule K b g) = UPGRADE_MODULE_NAME K @ ''.lazy'' @ numberToString (Suc (moduleUid g))"
  by (simp add: downgradeModule_def Let_def)

lemma downgradeModule_uid: "moduleUid (snd (downgradeModule K b g)) = Suc (moduleUid g)"
  by (simp add: downgradeModule_def Let_def)

lemma downgradeModule_registers:
  "lazyModuleAt K (modules (snd (downgradeModule K b g))) (fst (downgradeModule K b g))"
  by (simp add: downgradeModule_def Let_def lazyModuleAt_def)

lemma downgradeModule_keeps:
  "lazyModuleAt K (modules g) n \<Longrightarrow> lazyModuleAt K (modules (snd (downgradeModule K b g))) n"
  by (simp add: downgradeModule_def Let_def lazyModuleAt_def)

lemma downgradeModules_names:
  "fst (downgradeModules K bs g) =
     map (\<lambda>uid. UPGRADE_MODULE_NAME K @ ''.lazy'' @ numberToString uid)
       [Suc (moduleUid g) ..< Suc (moduleUid g) + length bs]"
proof (induction bs arbitrary: g)
  case Nil
  show ?case by simp
next
  case (Cons b bs)
  have "[Suc (moduleUid g) ..< Suc (moduleUid g) + length (b # bs)] =
        Suc (moduleUid g) # [Suc (Suc (moduleUid g)) ..< Suc (Suc (moduleUid g)) + length bs]"
    by (simp add: upt_conv_Cons del: upt_Suc)
  with Cons [of "snd (downgradeModule K b g)"] show ?case
    by (simp add: split_beta downgradeModule_name downgradeModule_uid del: upt_Suc)
qed

lemma downgradeModules_length: "length (fst (downgradeModules K bs g)) = length bs"
  by (induction bs arbitrary: g) (simp_all add: split_beta)

lemma downgradeModules_uid:
  "moduleUid (snd (downgradeModules K bs g)) = moduleUid g + length bs"
  by (induction bs arbitrary: g) (simp_all add: split_beta downgradeModule_uid)

lemma downgradeModules_keeps:
  "lazyModuleAt K (modules g) n \<Longrightarrow> lazyModuleAt K (modules (snd (downgradeModules K bs g))) n"
  by (induction bs arbitrary: g) (simp_all add: split_beta downgradeModule_keeps)

lemma downgradeModules_registers:
  "n \<in> set (fst (downgradeModules K bs g)) \<Longrightarrow>
   lazyModuleAt K (modules (snd (downgradeModules K bs g))) n"
proof (induction bs arbitrary: g)
  case Nil
  then show ?case by simp
next
  case (Cons b bs)
  from Cons.prems
  consider "n = fst (downgradeModule K b g)"
    | "n \<in> set (fst (downgradeModules K bs (snd (downgradeModule K b g))))"
    by (auto simp add: split_beta)
  then show ?case
  proof cases
    case 1
    then show ?thesis
      by (simp add: split_beta downgradeModules_keeps downgradeModule_registers)
  next
    case 2
    then show ?thesis by (simp add: split_beta Cons.IH)
  qed
qed

lemma distinct_names:
  "distinct (map (\<lambda>uid. prefix @ middle @ numberToString uid) [a ..< b])"
  by (simp add: distinct_map inj_on_def numberToString_inj)

lemma count_after_configBlock:
  "getDowngradedModuleCount K (configBlock K IncrementDowngradedModuleCount ng1_injector) =
   getDowngradedModuleCount K ng1_injector + 1"
  by (simp add: configBlock_def getDowngradedModuleCount_def has_def)

lemma count_after_providers:
  assumes "UPGRADE_APP_TYPE_KEY K \<noteq> DOWNGRADED_MODULE_COUNT_KEY K"
    and "list_all (\<lambda>kp. case snd kp of Constant _ \<Rightarrow> fst kp = UPGRADE_APP_TYPE_KEY K | _ \<Rightarrow> True) ps"
  shows "fold registerProvider ps ng1_injector (DOWNGRADED_MODULE_COUNT_KEY K) =
         ng1_injector (DOWNGRADED_MODULE_COUNT_KEY K)"
  using assms(2)
proof (induction ps arbitrary: ng1_injector)
  case Nil
  show ?case by simp
next
  case (Cons kp ps)
  obtain k p where kp: "kp = (k, p)" by (cases kp)
  from Cons.prems have rest:
    "list_all (\<lambda>kp. case snd kp of Constant _ \<Rightarrow> fst kp = UPGRADE_APP_TYPE_KEY K | _ \<Rightarrow> True) ps"
    by simp
  show ?case
  proof (cases p)
    case (Constant v)
    with Cons.prems kp have "k = UPGRADE_APP_TYPE_KEY K" by simp
    then show ?thesis
      using Cons.IH [OF rest] kp Constant assms(1) by simp
  next
    case (IdentityOf x)
    with Cons.IH [OF rest] kp show ?thesis by simp
  next
    case LazyInjectorFactory
    with Cons.IH [OF rest] kp show ?thesis by simp
  next
    case (LazyModuleRefFactory x)
    with Cons.IH [OF rest] kp show ?thesis by simp
  qed
qed

lemma count_after_loadModule:
  assumes "UPGRADE_APP_TYPE_KEY K \<noteq> DOWNGRADED_MODULE_COUNT_KEY K"
    and "lazyModuleAt K registry n" and "registry n = Some m"
  shows "getDowngradedModuleCount K (loadModule K m ng1_injector) =
         getDowngradedModuleCount K ng1_injector + 1"
proof -
  from assms(2,3) have cb: "configBlocks m = [IncrementDowngradedModuleCount]"
    and ps: "list_all (\<lambda>kp. case snd kp of Constant _ \<Rightarrow> fst kp = UPGRADE_APP_TYPE_KEY K | _ \<Rightarrow> True)
               (providers m)"
    by (simp_all add: lazyModuleAt_def)
  have "fold registerProvider (providers m) ng1_injector (DOWNGRADED_MODULE_COUNT_KEY K) =
        ng1_injector (DOWNGRADED_MODULE_COUNT_KEY K)"
    by (rule count_after_providers [OF assms(1) ps])
  then have "getDowngradedModuleCount K (fold registerProvider (providers m) ng1_injector) =
             getDowngradedModuleCount K ng1_injector"
    by (simp add: getDowngradedModuleCount_def has_def)
  then show ?thesis
    by (simp add: loadModule_def cb count_after_configBlock)
qed

lemma count_after_loadModules:
  assumes "UPGRADE_APP_TYPE_KEY K \<noteq> DOWNGRADED_MODULE_COUNT_KEY K"
    and "\<forall>n \<in> set names. lazyModuleAt K registry n"
    and "distinct names" and "set names \<inter> set loaded = {}"
  shows "\<exists>ng1_injector'. loadModules K registry loaded names ng1_injector = Inr ng1_injector' \<and>
           getDowngradedModuleCount K ng1_injector' =
           getDowngradedModuleCount K ng1_injector + int (length names)"
  using assms(2-4)
proof (induction names arbitrary: loaded ng1_injector)
  case Nil
  show ?case by simp
next
  case (Cons n names)
  from Cons.prems(1) obtain m where m: "registry n = Some m" and l: "lazyModuleAt K registry n"
    by (auto simp add: lazyModuleAt_def split: option.splits)
  from Cons.prems have "\<forall>n \<in> set names. lazyModuleAt K registry n" "distinct names"
    "set names \<inter> set (n # loaded) = {}" by auto
  from Cons.IH [OF this, of "loadModule K m ng1_injector"] Cons.prems(3) m
  show ?case
    by (auto simp add: count_after_loadModule [OF assms(1) l m])
qed

text \<open>
  C8. N calls of \<open>downgradeModule\<close> in a row return the names built from the counter
  values \<open>moduleUid + 1, ..., moduleUid + N\<close> in that order, which are pairwise distinct,
  and leave the counter at \<open>moduleUid + N\<close>; loading the N modules into an injector that
  has no module count yet succeeds and leaves the count at N. (The key of the
  application type must differ from the key of the count.)
\<close>

theorem downgradeModule_names_and_count:
  assumes "downgradeModules K bs g = (names, g')"
    and "UPGRADE_APP_TYPE_KEY K \<noteq> DOWNGRADED_MODULE_COUNT_KEY K"
    and "\<not> has ng1_injector (DOWNGRADED_MODULE_COUNT_KEY K)"
  shows "names = map (\<lambda>uid. UPGRADE_MODULE_NAME K @ ''.lazy'' @ numberToString uid)
                   [moduleUid g + 1 ..< moduleUid g + 1 + length bs] \<and>
         distinct names \<and>
         moduleUid g' = moduleUid g + length bs \<and>
         (\<exists>ng1_injector'.
            loadModules K (modules g') [] names ng1_injector = Inr ng1_injector' \<and>
            getDowngradedModuleCount K ng1_injector' = int (length bs))"
proof -
  from assms(1) have names: "names = fst (downgradeModules K bs g)"
    and g': "g' = snd (downgradeModules K bs g)" by simp_all
  have n: "names = map (\<lambda>uid. UPGRADE_MODULE_NAME K @ ''.lazy'' @ numberToString uid)
                   [moduleUid g + 1 ..< moduleUid g + 1 + length bs]"
    by (simp add: names downgradeModules_names del: upt_Suc)
  have len: "length names = length bs" by (simp add: names downgradeModules_length)
  have d: "distinct names"
    unfolding n by (rule distinct_names)
  have "\<forall>n \<in> set names. lazyModuleAt K (modules g') n"
    by (simp add: names g' downgradeModules_registers)
  from count_after_loadModules [OF assms(2) this d, of "[]" ng1_injector] assms(3)
  have "\<exists>ng1_injector'.
            loadModules K (modules g') [] names ng1_injector = Inr ng1_injector' \<and>
            getDowngradedModuleCount K ng1_injector' = int (length bs)"
    by (simp add: len getDowngradedModuleCount_def)
  with n d show ?thesis by (simp add: g' downgradeModules_uid)
qed


lemma example_names:
  "fst (downgradeModules exampleConstants [Function 0, NgModuleFactory 1] initialRegistrar) =
     [''$$UpgradeModule.lazy1'', ''$$UpgradeModule.lazy2'']"
  by (simp add: downgradeModule_def Let_def split_beta initialRegistrar_def exampleConstants_def
        numberToString.simps [of "Suc 0"] numberToString.simps [of "Suc (Suc 0)"] digit_def)

theorem downgradeModule_names_and_count_witness:
  "fst (downgradeModules exampleConstants [Function 0, NgModuleFactory 1] initialRegistrar) =
     [''$$UpgradeModule.lazy1'', ''$$UpgradeModule.lazy2''] \<and>
   moduleUid (snd (downgradeModules exampleConstants [Function 0, NgModuleFactory 1]
     initialRegistrar)) = 2 \<and>
   (\<exists>ng1_injector'.
      loadModules exampleConstants
        (modules (snd (downgradeModules exampleConstants [Function 0, NgModuleFactory 1]
           initialRegistrar)))
        [] [''$$UpgradeModule.lazy1'', ''$$UpgradeModule.lazy2'']
        (Map.empty :: nat IInjectorService) = Inr ng1_injector' \<and>
      getDowngradedModuleCount exampleConstants ng1_injector' = 2)"
proof -
  have keys: "UPGRADE_APP_TYPE_KEY exampleConstants \<noteq> DOWNGRADED_MODULE_COUNT_KEY exampleConstants"
    by (simp add: exampleConstants_def)
  have fresh: "\<not> has (Map.empty :: nat IInjectorService) (DOWNGRADED_MODULE_COUNT_KEY exampleConstants)"
    by (simp add: has_def)
  have start: "moduleUid initialRegistrar = 0"
    by (simp add: initialRegistrar_def)
  note t = downgradeModule_names_and_count [OF surjective_pairing keys fresh,
      of "[Function 0, NgModuleFactory 1]" initialRegistrar]
  from t [THEN conjunct2, THEN conjunct2, THEN conjunct1]
  have uid: "moduleUid (snd (downgradeModules exampleConstants
      [Function 0, NgModuleFactory 1] initialRegistrar)) = 2"
    by (simp add: start del: downgradeModules.simps)
  from t [THEN conjunct2, THEN conjunct2, THEN conjunct2]
  have "\<exists>ng1_injector'.
      loadModules exampleConstants
        (modules (snd (downgradeModules exampleConstants [Function 0, NgModuleFactory 1]
           initialRegistrar)))
        [] (fst (downgradeModules exampleConstants [Function 0, NgModuleFactory 1]
           initialRegistrar))
        (Map.empty :: nat IInjectorService) = Inr ng1_injector' \<and>
      getDowngradedModuleCount exampleConstants ng1_injector' = 2"
    by (simp del: downgradeModules.simps loadModules.simps)
  then show ?thesis
    unfolding example_names using example_names uid by blast
qed

subsection \<open>The parent-injector promise\<close>

lemma run_append:
  "run (ms @ ns) this = (case run ms this of Inl e \<Rightarrow> Inl e | Inr this' \<Rightarrow> run ns this')"
proof (induction ms arbitrary: this)
  case Nil
  show ?case by simp
next
  case (Cons m ms)
  show ?case
  proof (cases m)
    case (Then cb)
    with Cons show ?thesis by simp
  next
    case (Resolve i)
    with Cons show ?thesis by (simp split: sum.splits)
  qed
qed

lemma run_Then_pending:
  "this_injector this = None \<Longrightarrow>
   run (map Then cbs) this = Inr (this\<lparr>this_callbacks := this_callbacks this @ cbs\<rparr>)"
proof (induction cbs arbitrary: this)
  case Nil
  show ?case by simp
next
  case (Cons cb cbs)
  have "this_injector (then' cb this) = None"
    using Cons.prems by (simp add: then'_def)
  from Cons.IH [OF this] Cons.prems show ?case
    by (simp add: then'_def)
qed

lemma run_Then_resolved:
  "this_injector this = Some i \<Longrightarrow>
   run (map Then cbs) this = Inr (this\<lparr>called := called this @ map (\<lambda>cb. (cb, i)) cbs\<rparr>)"
proof (induction cbs arbitrary: this)
  case Nil
  show ?case by simp
next
  case (Cons cb cbs)
  have "this_injector (then' cb this) = Some i"
    using Cons.prems by (simp add: then'_def)
  from Cons.IH [OF this] Cons.prems show ?case
    by (simp add: then'_def)
qed

text \<open>
  C4. On a fresh \<open>ParentInjectorPromise\<close>, callbacks passed to \<open>then\<close> before \<open>resolve\<close>
  are queued and none is called. After \<open>resolve i\<close> (the only one) each of them has been
  called once with \<open>i\<close>, in the order of registration, and the queue is empty; every
  callback passed to \<open>then\<close> afterwards is called at once with \<open>i\<close> and never queued.
  \<open>resolve\<close> leaves the raw injector in the element's data under the injector key and
  the object's \<open>element\<close> at \<open>null\<close>.
\<close>

theorem ParentInjectorPromise_single_resolve:
  fixes K :: constants and cbs cbs' :: "'cb list" and i :: 'i and element :: nat
    and d :: "nat \<Rightarrow> string \<rightharpoonup> 'i data_value"
  defines "p0 \<equiv> new_ParentInjectorPromise K element d"
  shows "run (map Then cbs) p0 = Inr (p0\<lparr>this_callbacks := cbs\<rparr>) \<and>
         run (map Then cbs @ Resolve i # map Then cbs') p0 =
           Inr (p0\<lparr>this_element := None,
                   this_callbacks := [],
                   this_injector := Some i,
                   element_data := (element_data p0)(element :=
                      (element_data p0 element)(controllerKey (INJECTOR_KEY K) \<mapsto> RawInjector i)),
                   called := map (\<lambda>cb. (cb, i)) (cbs @ cbs')\<rparr>)"
proof -
  have none: "this_injector p0 = None" and cb0: "this_callbacks p0 = []"
    and el: "this_element p0 = Some element" and c0: "called p0 = []"
    and key: "this_injectorKey p0 = controllerKey (INJECTOR_KEY K)"
    by (simp_all add: p0_def new_ParentInjectorPromise_def Let_def)
  have queued: "run (map Then cbs) p0 = Inr (p0\<lparr>this_callbacks := cbs\<rparr>)"
    using run_Then_pending [OF none, of cbs] by (simp add: cb0)
  let ?p1 = "p0\<lparr>this_callbacks := cbs\<rparr>"
  let ?p2 = "p0\<lparr>this_element := None, this_callbacks := [], this_injector := Some i,
                 element_data := (element_data p0)(element :=
                      (element_data p0 element)(controllerKey (INJECTOR_KEY K) \<mapsto> RawInjector i)),
                 called := map (\<lambda>cb. (cb, i)) cbs\<rparr>"
  have res: "resolve i ?p1 = Inr ?p2"
    by (simp add: resolve_def Let_def el key c0)
  have some: "this_injector ?p2 = Some i" by simp
  have "run (map Then cbs @ Resolve i # map Then cbs') p0 = run (map Then cbs') ?p2"
    by (simp add: run_append queued res)
  also have "\<dots> = Inr (?p2\<lparr>called := called ?p2 @ map (\<lambda>cb. (cb, i)) cbs'\<rparr>)"
    by (rule run_Then_resolved [OF some])
  finally show ?thesis using queued by simp
qed


subsection \<open>The downgraded-component directive\<close>

lemma resolve_new:
  "resolve i (new_ParentInjectorPromise K e d :: ('i, 'cb) ParentInjectorPromise) =
     Inr ((new_ParentInjectorPromise K e d)
            \<lparr>this_element := None, this_injector := Some i,
             element_data := d(e := (d e)(controllerKey (INJECTOR_KEY K) \<mapsto> RawInjector i))\<rparr>)"
  by (simp add: resolve_def new_ParentInjectorPromise_def Let_def)

lemma doDowngrade_found:
  assumes "resolveComponentFactory A mI (component info) = Some f"
  shows "doDowngrade K info ng1_injector A e pI mI st =
           Inr (st\<lparr>store := (store st)(e := (store st e)(controllerKey (INJECTOR_KEY K) \<mapsto>
                        RawInjector (getInjector A pI f))),
                   trace := trace st @ ResolveComponentFactory mI #
                            adapterCalls K info ng1_injector pI f @
                            (if ranAsync st then [EvalAsync] else [])\<rparr>)"
  using assms by (simp add: doDowngrade_def Let_def resolve_new)

lemma downgradeFn_found:
  assumes "resolveComponentFactory A mI (component info) = Some f"
  shows "downgradeFn K info ng1_injector A e z pI mI st =
           Inr (st\<lparr>ngZone := (if isNgUpgradeLite K ng1_injector \<and> ngZone st = None
                              then Some pI else ngZone st),
                   store := (store st)(e := (store st e)(controllerKey (INJECTOR_KEY K) \<mapsto>
                        RawInjector (getInjector A pI f))),
                   trace := trace st @ zoneCalls K ng1_injector z pI st @
                            ResolveComponentFactory mI #
                            adapterCalls K info ng1_injector pI f @
                            (if ranAsync st then [EvalAsync] else [])\<rparr>)"
  by (simp add: downgradeFn_def zoneCalls_def Let_def doDowngrade_found [OF assms])

lemma thenable_cases:
  "isThenable (Some (Thenable t)) = Inr True" "isThenable (Some (Injector i)) = Inr False"
  by (simp_all add: isThenable_def)

lemma downgradeNowOrLater_later:
  assumes "isThenable (Some p) = Inr True \<or> isThenable (Some m) = Inr True"
  shows "downgradeNowOrLater K info ng1_injector A e z (Some p) (Some m) st =
           Inr (st\<lparr>awaiting := Some (p, m), ranAsync := True\<rparr>)"
  using assms by (cases p; cases m) (simp_all add: downgradeNowOrLater_def isThenable_def)

lemma downgradeNowOrLater_now:
  "downgradeNowOrLater K info ng1_injector A e z (Some (Injector pI)) (Some (Injector mI)) st =
     (case downgradeFn K info ng1_injector A e z pI mI st of
        Inl err \<Rightarrow> Inl err
      | Inr st' \<Rightarrow> Inr (st'\<lparr>ranAsync := True\<rparr>))"
  by (simp add: downgradeNowOrLater_def isThenable_def)

lemma link_later:
  assumes "moduleInjectorOf K info ng1_injector parentInjector = Inr moduleInjector"
    and "finalParentInjector parentInjector moduleInjector = Some p"
    and "finalModuleInjector parentInjector moduleInjector = Some m"
    and "isThenable (Some p) = Inr True \<or> isThenable (Some m) = Inr True"
  shows "link K info ng1_injector A e parentInjector z st0 =
           Inr (st0\<lparr>ranAsync := True, awaiting := Some (p, m)\<rparr>)"
  using assms(1-3) by (simp add: link_def downgradeNowOrLater_later [OF assms(4)])

lemma link_now:
  assumes "moduleInjectorOf K info ng1_injector parentInjector = Inr moduleInjector"
    and "finalParentInjector parentInjector moduleInjector = Some (Injector pI)"
    and "finalModuleInjector parentInjector moduleInjector = Some (Injector mI)"
    and "resolveComponentFactory A mI (component info) = Some f"
  shows "\<exists>st1. link K info ng1_injector A e parentInjector z st0 = Inr st1 \<and>
               awaiting st1 = None \<and>
               trace st1 = trace st0 @ zoneCalls K ng1_injector z pI st0 @
                 ResolveComponentFactory mI # adapterCalls K info ng1_injector pI f"
  using assms
  by (simp add: link_def downgradeNowOrLater_now downgradeFn_found zoneCalls_def)

lemma lite_lookup:
  "moduleInjectorOf exampleConstants (exampleInfo (Some ''$$UpgradeModule.lazy1'')) (liteInjector 2) None
     = Inr (Some (Thenable 0))"
  by (simp add: moduleInjectorOf_def lookupModuleInjector_def exampleInfo_def Let_def
        validateInjectionKey_def getUpgradeAppType_def getDowngradedModuleCount_def
        has_def get_def or_else_def liteInjector_def exampleConstants_def)

lemma legacy_lookup:
  "moduleInjectorOf exampleConstants (exampleInfo None) (legacyInjector 2) None
     = Inr (Some (Injector 0))"
  by (simp add: moduleInjectorOf_def lookupModuleInjector_def exampleInfo_def Let_def
        validateInjectionKey_def getUpgradeAppType_def getDowngradedModuleCount_def
        has_def get_def or_else_def legacyInjector_def exampleConstants_def)

lemma final_none:
  "finalParentInjector None m = m" "finalModuleInjector None m = m"
  by (simp_all add: finalParentInjector_def finalModuleInjector_def or_else_def split: option.splits)

lemma example_factory:
  "resolveComponentFactory exampleAngular i (component (exampleInfo m)) = Some 42"
  by (simp add: exampleAngular_def exampleInfo_def)

lemma example_digest: "propagateDigest (exampleInfo m) = None"
  by (simp add: exampleInfo_def)

lemma lite_zone: "isNgUpgradeLite exampleConstants (liteInjector n)"
  "\<not> isNgUpgradeLite exampleConstants (legacyInjector 2)"
  by (simp_all add: isNgUpgradeLite_def lite_type legacy_type)

text \<open>
  C1. \<open>link\<close> looks the module injector up, after validating the lazy-module-reference key
  of the component's module, exactly when there is no parent injector or the application
  is a Lite one with more than one downgraded module; an error of the validation or of
  the lookup is the error of \<open>link\<close>. The module injector is the reference's injector or
  else its promise. \<open>link\<close> then goes on with the parent injector if there is one and else
  the module injector as final parent injector, and with the module injector if there is
  one and else the parent injector as final module injector. Without a lookup both are
  the parent injector.
\<close>

theorem link_injector_selection:
  "link K info ng1_injector A e parentInjector z st0 =
     (let module = (case downgradedModule info of None \<Rightarrow> [] | Some m \<Rightarrow> m);
          key = LAZY_MODULE_REF K @ module;
          st = st0\<lparr>ranAsync := False, awaiting := None\<rparr>
      in if parentInjector = None \<or>
            (isNgUpgradeLite K ng1_injector \<and> 1 < getDowngradedModuleCount K ng1_injector)
         then
           (case validateInjectionKey K ng1_injector module key
                   (''instantiating component '' @ [CHR 0x27] @ getTypeName (component info)
                      @ [CHR 0x27]) of
              Inl err \<Rightarrow> Inl err
            | Inr _ \<Rightarrow>
                (case ng1_injector key of
                   None \<Rightarrow> Inl (UnknownProvider key)
                 | Some v \<Rightarrow>
                     (let moduleInjector =
                            (case v of
                               NumberV _ \<Rightarrow> None
                             | LazyModuleRefV r \<Rightarrow>
                                 (case ref_injector r of
                                    Some i \<Rightarrow> Some (Injector i)
                                  | None \<Rightarrow> map_option Thenable (ref_promise r)))
                      in downgradeNowOrLater K info ng1_injector A e z
                           (case parentInjector of Some p \<Rightarrow> Some p | None \<Rightarrow> moduleInjector)
                           (case moduleInjector of Some m \<Rightarrow> Some m | None \<Rightarrow> parentInjector)
                           st)))
         else downgradeNowOrLater K info ng1_injector A e z parentInjector parentInjector st)"
  by (cases parentInjector)
     (auto simp add: link_def moduleInjectorOf_def hasMultipleDowngradedModules_def
        lookupModuleInjector_def finalParentInjector_def finalModuleInjector_def or_else_def
        get_def Let_def
        split: sum.splits option.splits ng1_value.splits)


text \<open>
  C2. Let \<open>p\<close> and \<open>m\<close> be the final parent and module injector of a \<open>link\<close>. If one of
  them is a thenable, \<open>link\<close> returns with nothing recorded and the two values awaited;
  the \<open>Promise.all\<close> callback leaves that state as it is while one of them has not
  settled, and once both have (and the module injector resolves a component factory) it
  makes the adapter calls, among them \<open>createComponent\<close>, followed by exactly one
  \<open>$evalAsync\<close>. If both are injectors (and the factory is found), \<open>link\<close> itself makes
  the adapter calls, nothing is awaited and no \<open>$evalAsync\<close> is recorded.
\<close>

theorem link_now_or_later:
  assumes mi: "moduleInjectorOf K info ng1_injector parentInjector = Inr moduleInjector"
    and fp: "finalParentInjector parentInjector moduleInjector = Some p"
    and fm: "finalModuleInjector parentInjector moduleInjector = Some m"
  shows
    "(isThenable (Some p) = Inr True \<or> isThenable (Some m) = Inr True \<longrightarrow>
        link K info ng1_injector A e parentInjector z st0 =
          Inr (st0\<lparr>ranAsync := True, awaiting := Some (p, m)\<rparr>) \<and>
        (fulfilled settled p = None \<or> fulfilled settled m = None \<longrightarrow>
           afterPromiseAll K info ng1_injector A e z' settled
             (st0\<lparr>ranAsync := True, awaiting := Some (p, m)\<rparr>) =
           Inr (st0\<lparr>ranAsync := True, awaiting := Some (p, m)\<rparr>)) \<and>
        (fulfilled settled p = Some pI \<and> fulfilled settled m = Some mI \<and>
         resolveComponentFactory A mI (component info) = Some f \<longrightarrow>
           (\<exists>st2. afterPromiseAll K info ng1_injector A e z' settled
                    (st0\<lparr>ranAsync := True, awaiting := Some (p, m)\<rparr>) = Inr st2 \<and>
                  awaiting st2 = None \<and>
                  trace st2 = trace st0 @ zoneCalls K ng1_injector z' pI st0 @
                    ResolveComponentFactory mI # adapterCalls K info ng1_injector pI f @
                    [EvalAsync]))) \<and>
     (p = Injector pI \<and> m = Injector mI \<and>
      resolveComponentFactory A mI (component info) = Some f \<longrightarrow>
        (\<exists>st1. link K info ng1_injector A e parentInjector z st0 = Inr st1 \<and>
               awaiting st1 = None \<and>
               trace st1 = trace st0 @ zoneCalls K ng1_injector z pI st0 @
                 ResolveComponentFactory mI # adapterCalls K info ng1_injector pI f))"
proof (intro conjI impI)
  assume t: "isThenable (Some p) = Inr True \<or> isThenable (Some m) = Inr True"
  show "link K info ng1_injector A e parentInjector z st0 =
          Inr (st0\<lparr>ranAsync := True, awaiting := Some (p, m)\<rparr>)"
    by (rule link_later [OF mi fp fm t])
next
  assume "fulfilled settled p = None \<or> fulfilled settled m = None"
  then show "afterPromiseAll K info ng1_injector A e z' settled
             (st0\<lparr>ranAsync := True, awaiting := Some (p, m)\<rparr>) =
           Inr (st0\<lparr>ranAsync := True, awaiting := Some (p, m)\<rparr>)"
    by (auto simp add: afterPromiseAll_def split: option.splits)
next
  assume "fulfilled settled p = Some pI \<and> fulfilled settled m = Some mI \<and>
         resolveComponentFactory A mI (component info) = Some f"
  then show "\<exists>st2. afterPromiseAll K info ng1_injector A e z' settled
                    (st0\<lparr>ranAsync := True, awaiting := Some (p, m)\<rparr>) = Inr st2 \<and>
                  awaiting st2 = None \<and>
                  trace st2 = trace st0 @ zoneCalls K ng1_injector z' pI st0 @
                    ResolveComponentFactory mI # adapterCalls K info ng1_injector pI f @
                    [EvalAsync]"
    by (simp add: afterPromiseAll_def downgradeFn_found zoneCalls_def)
next
  assume "p = Injector pI \<and> m = Injector mI \<and>
      resolveComponentFactory A mI (component info) = Some f"
  then show "\<exists>st1. link K info ng1_injector A e parentInjector z st0 = Inr st1 \<and>
               awaiting st1 = None \<and>
               trace st1 = trace st0 @ zoneCalls K ng1_injector z pI st0 @
                 ResolveComponentFactory mI # adapterCalls K info ng1_injector pI f"
    using fp fm by (simp add: link_now [OF mi])
qed


theorem link_now_or_later_witness:
  "moduleInjectorOf exampleConstants (exampleInfo (Some ''$$UpgradeModule.lazy1'')) (liteInjector 2) None
     = Inr (Some (Thenable 0)) \<and>
   link exampleConstants (exampleInfo (Some ''$$UpgradeModule.lazy1'')) (liteInjector 2)
       exampleAngular 0 None True initialLink
     = Inr (initialLink\<lparr>ranAsync := True, awaiting := Some (Thenable 0, Thenable 0)\<rparr>) \<and>
   afterPromiseAll exampleConstants (exampleInfo (Some ''$$UpgradeModule.lazy1'')) (liteInjector 2)
       exampleAngular 0 False notSettled
       (initialLink\<lparr>ranAsync := True, awaiting := Some (Thenable 0, Thenable 0)\<rparr>)
     = Inr (initialLink\<lparr>ranAsync := True, awaiting := Some (Thenable 0, Thenable 0)\<rparr>) \<and>
   (\<exists>st2. afterPromiseAll exampleConstants (exampleInfo (Some ''$$UpgradeModule.lazy1''))
            (liteInjector 2) exampleAngular 0 False (settledWith 0 9)
            (initialLink\<lparr>ranAsync := True, awaiting := Some (Thenable 0, Thenable 0)\<rparr>) = Inr st2 \<and>
          awaiting st2 = None \<and>
          trace st2 = [GetNgZone 9, NgZoneRun, ResolveComponentFactory 9, NewAdapter 9 42,
                       CompileContents, CreateComponent, SetupInputs True None, SetupOutputs,
                       RegisterCleanup, EvalAsync]) \<and>
   moduleInjectorOf exampleConstants (exampleInfo None) (legacyInjector 2) None
     = Inr (Some (Injector 0)) \<and>
   (\<exists>st1. link exampleConstants (exampleInfo None) (legacyInjector 2) exampleAngular 0 None True
            initialLink = Inr st1 \<and>
          awaiting st1 = None \<and>
          trace st1 = [ResolveComponentFactory 0, NewAdapter 0 42, CompileContents,
                       CreateComponent, SetupInputs False None, SetupOutputs, RegisterCleanup])"
proof -
  note lite = link_now_or_later [OF lite_lookup final_none(1) final_none(2),
      of exampleAngular 0 True initialLink _ False]
  note legacy = link_now_or_later [OF legacy_lookup final_none(1) final_none(2),
      of exampleAngular 0 True initialLink notSettled True 0 0 42]
  have pending: "fulfilled notSettled (Thenable 0) = None"
    and settled9: "fulfilled (settledWith 0 9) (Thenable 0) = Some 9"
    by (simp_all add: fulfilled_def notSettled_def settledWith_def)
  have t0: "trace initialLink = []" and z0: "ngZone initialLink = None"
    by (simp_all add: initialLink_def)
  from lite [of notSettled 0 0 42] pending
  have a: "link exampleConstants (exampleInfo (Some ''$$UpgradeModule.lazy1'')) (liteInjector 2)
       exampleAngular 0 None True initialLink
     = Inr (initialLink\<lparr>ranAsync := True, awaiting := Some (Thenable 0, Thenable 0)\<rparr>)"
    and b: "afterPromiseAll exampleConstants (exampleInfo (Some ''$$UpgradeModule.lazy1'')) (liteInjector 2)
       exampleAngular 0 False notSettled
       (initialLink\<lparr>ranAsync := True, awaiting := Some (Thenable 0, Thenable 0)\<rparr>)
     = Inr (initialLink\<lparr>ranAsync := True, awaiting := Some (Thenable 0, Thenable 0)\<rparr>)"
    by (simp_all add: thenable_cases)
  from lite [of "settledWith 0 9" 9 9 42] settled9
  have c: "\<exists>st2. afterPromiseAll exampleConstants (exampleInfo (Some ''$$UpgradeModule.lazy1''))
            (liteInjector 2) exampleAngular 0 False (settledWith 0 9)
            (initialLink\<lparr>ranAsync := True, awaiting := Some (Thenable 0, Thenable 0)\<rparr>) = Inr st2 \<and>
          awaiting st2 = None \<and>
          trace st2 = [GetNgZone 9, NgZoneRun, ResolveComponentFactory 9, NewAdapter 9 42,
                       CompileContents, CreateComponent, SetupInputs True None, SetupOutputs,
                       RegisterCleanup, EvalAsync]"
    by (simp add: thenable_cases example_factory t0 z0 zoneCalls_def adapterCalls_def lite_zone
          example_digest)
  from legacy
  have d: "\<exists>st1. link exampleConstants (exampleInfo None) (legacyInjector 2) exampleAngular 0 None True
            initialLink = Inr st1 \<and>
          awaiting st1 = None \<and>
          trace st1 = [ResolveComponentFactory 0, NewAdapter 0 42, CompileContents,
                       CreateComponent, SetupInputs False None, SetupOutputs, RegisterCleanup]"
    by (simp add: example_factory t0 zoneCalls_def adapterCalls_def lite_zone example_digest)
  from a b c d lite_lookup legacy_lookup show ?thesis by blast
qed

subsection \<open>A lazy module and its first component\<close>

lemma lazyApp_loaded:
  "loadModules exampleConstants
     (modules (snd (downgradeModule exampleConstants (Function 0) initialRegistrar))) []
     [fst (downgradeModule exampleConstants (Function 0) initialRegistrar)] Map.empty
   = Inr lazyApp"
  by (simp add: downgradeModule_def Let_def initialRegistrar_def loadModule_def configBlock_def
        getDowngradedModuleCount_def has_def lazyApp_def exampleConstants_def)

lemma servesLazyModule_lookup:
  assumes "servesLazyModule K info ng1_injector r"
  shows "moduleInjectorOf K info ng1_injector None =
           Inr (or_else (map_option Injector (ref_injector r)) (map_option Thenable (ref_promise r)))"
  using assms
  by (auto simp add: servesLazyModule_def moduleInjectorOf_def lookupModuleInjector_def Let_def
        validateInjectionKey_def isNgUpgradeLite_def has_def get_def)

lemma lazyModuleRefFactory_result:
  "fst (lazyModuleRefFactory n b p s) = \<lparr>needsNgZone = True, ref_injector = None, ref_promise = Some p\<rparr>"
  by (simp add: lazyModuleRefFactory_def Let_def)

lemma runMicrotask_stores:
  assumes "runMicrotask N s = (Some out, s')" and "closure_injector s' = Some i"
    and "result s' = Some r"
  shows "ref_injector r = Some i"
  using assms
  by (auto simp add: runMicrotask_def bootstrapThen_def Let_def
        split: list.splits prod.splits sum.splits)

lemma syncBootstrap_eval:
  "fst syncBootstrap = \<lparr>needsNgZone = True, ref_injector = None, ref_promise = Some 0\<rparr>"
  "result (snd syncBootstrap) = Some \<lparr>needsNgZone = True, ref_injector = None, ref_promise = Some 0\<rparr>"
  "microtasks (snd syncBootstrap) = [5]"
  "tempInjectorRef (snd syncBootstrap) = Some 0"
  "closure_injector (snd syncBootstrap) = None"
  by (simp_all add: syncBootstrap_def lazyModuleRefFactory_def Let_def initialLazyModule_def
        setTempInjectorRef_def)

lemma firstGetInjector_serves:
  "servesLazyModule exampleConstants (exampleInfo None) firstGetInjector (fst syncBootstrap)"
  by (simp add: servesLazyModule_def firstGetInjector_def serve_def syncBootstrap_eval
        exampleInfo_def isNgUpgradeLite_def getUpgradeAppType_def getDowngradedModuleCount_def
        has_def lazyApp_def exampleConstants_def)

text \<open>
  The callback of \<open>Promise.all\<close> on a link that awaits two values: nothing happens while
  one of them has not settled; with both there (and the component factory found) it asks
  the zone, creates the component and ends with \<open>$evalAsync\<close>. The job of the microtask
  queue stores the injector it returns in the closure and in the reference.
\<close>

lemma afterPromiseAll_waits:
  assumes "awaiting st = Some (p, m)"
    and "fulfilled settled p = None \<or> fulfilled settled m = None"
  shows "afterPromiseAll K info ng1_injector A e z settled st = Inr st"
  using assms by (auto simp add: afterPromiseAll_def split: option.splits)

lemma afterPromiseAll_runs:
  assumes "awaiting st = Some (p, m)" and "ranAsync st"
    and "fulfilled settled p = Some pI" and "fulfilled settled m = Some mI"
    and "resolveComponentFactory A mI (component info) = Some f"
  shows "\<exists>st2. afterPromiseAll K info ng1_injector A e z settled st = Inr st2 \<and>
           awaiting st2 = None \<and>
           trace st2 = trace st @ zoneCalls K ng1_injector z pI st @
             ResolveComponentFactory mI # adapterCalls K info ng1_injector pI f @ [EvalAsync]"
  using assms by (simp add: afterPromiseAll_def downgradeFn_found zoneCalls_def)

lemma zoneCalls_frame:
  "zoneCalls K ng1_injector z i (st\<lparr>ranAsync := a, awaiting := w\<rparr>) =
   zoneCalls K ng1_injector z i st"
  by (simp add: zoneCalls_def)

lemma runMicrotask_returns:
  assumes "runMicrotask N s = (Some (Inr i), s')"
  shows "closure_injector s' = Some i"
    and "result s' = map_option (\<lambda>r. r\<lparr>ref_injector := Some i\<rparr>) (result s)"
  using assms
  by (auto simp add: runMicrotask_def bootstrapThen_def Let_def
        split: list.splits prod.splits sum.splits)

lemma lazyModuleRefFactory_state:
  "result (snd (lazyModuleRefFactory n b p s)) =
     Some \<lparr>needsNgZone = True, ref_injector = None, ref_promise = Some p\<rparr>"
  "tempInjectorRef (snd (lazyModuleRefFactory n b p s)) = Some n"
  "microtasks (snd (lazyModuleRefFactory n (Fulfilled m) p s)) = microtasks s @ [m]"
  by (simp_all add: lazyModuleRefFactory_def Let_def setTempInjectorRef_def
        split: promise_state.splits)

lemma runMicrotask_first:
  assumes "microtasks s = [m]" and "tempInjectorRef s = Some n"
  shows "fst (runMicrotask N s) = Some (Inr (N m))"
  using assms
  by (simp add: runMicrotask_def bootstrapThen_def injectorFactory_def Let_def)

text \<open>
  The bootstrap function of the example returns a promise that is already fulfilled.
  After the factory has run the \<open>then\<close> callback is a job of the queue, and the \<open>link\<close> of
  a component with no parent injector returns with nothing recorded, no
  \<open>createComponent\<close> either, awaiting the promise of the reference: creation has not
  completed when \<open>link\<close> returns. (A \<open>then\<close> that called its callback at once would run
  it inside the initialiser of \<open>const result\<close>, where \<open>result\<close> cannot be assigned to.)
\<close>

theorem first_instantiation_deferred:
  "microtasks (snd syncBootstrap) = [5] \<and>
   link exampleConstants (exampleInfo None) firstGetInjector exampleAngular 0 None True initialLink
     = Inr (initialLink\<lparr>ranAsync := True, awaiting := Some (Thenable 0, Thenable 0)\<rparr>) \<and>
   trace (initialLink\<lparr>ranAsync := True, awaiting := Some (Thenable 0, Thenable 0)\<rparr>) = []"
proof -
  from servesLazyModule_lookup [OF firstGetInjector_serves]
  have mi: "moduleInjectorOf exampleConstants (exampleInfo None) firstGetInjector None
              = Inr (Some (Thenable 0))"
    by (simp add: syncBootstrap_eval or_else_def)
  have "link exampleConstants (exampleInfo None) firstGetInjector exampleAngular 0 None True
          initialLink
        = Inr (initialLink\<lparr>ranAsync := True, awaiting := Some (Thenable 0, Thenable 0)\<rparr>)"
    by (rule link_later [OF mi final_none(1) final_none(2)]) (simp add: thenable_cases)
  then show ?thesis by (simp add: syncBootstrap_eval initialLink_def)
qed

text \<open>
  C3, amended. A lazy module is registered and a downgraded component with no parent
  injector is linked in a Lite application whose injector serves the module's reference.

  The first instantiation, whose lookup of the reference is the one that ran the factory:
  the reference has no injector yet, only the promise \<open>p\<close>, whatever the state of the
  bootstrap promise, so \<open>link\<close> returns awaiting \<open>p\<close> with nothing created, and the
  callback of \<open>Promise.all\<close> does nothing while \<open>p\<close> has not settled. When the \<open>then\<close>
  callback of the bootstrap promise has run as a microtask and returned the injector \<open>i\<close>,
  \<open>i\<close> is the bootstrapped injector (the closure's \<open>injector\<close> and the reference's); with
  \<open>p\<close> settled to it and the component factory found, the callback of \<open>Promise.all\<close>
  resolves the component factory from \<open>i\<close>, hands \<open>i\<close> to the adapter, makes the adapter
  calls and ends with one \<open>$evalAsync\<close>, awaiting nothing.

  With a bootstrap promise that is already fulfilled with the module reference \<open>m\<close> and no
  earlier job, that microtask returns \<open>NgAdapterInjector m\<close>.

  A later instantiation, after that microtask: \<open>link\<close> (the factory being found) resolves
  the component factory from \<open>i\<close>, hands \<open>i\<close> to the adapter and makes the adapter calls
  before it returns, awaiting nothing and with no \<open>$evalAsync\<close>.
\<close>

theorem lazy_module_instantiation:
  "(servesLazyModule K info ng1_injector (fst (lazyModuleRefFactory n b p s0)) \<longrightarrow>
      link K info ng1_injector A e None z st0 =
        Inr (st0\<lparr>ranAsync := True, awaiting := Some (Thenable p, Thenable p)\<rparr>) \<and>
      (settled p = None \<longrightarrow>
         afterPromiseAll K info ng1_injector A e z' settled
           (st0\<lparr>ranAsync := True, awaiting := Some (Thenable p, Thenable p)\<rparr>) =
         Inr (st0\<lparr>ranAsync := True, awaiting := Some (Thenable p, Thenable p)\<rparr>)) \<and>
      (runMicrotask N (snd (lazyModuleRefFactory n b p s0)) = (Some (Inr i), s1) \<and>
       settled p = Some i \<and>
       resolveComponentFactory A i (component info) = Some f \<longrightarrow>
         closure_injector s1 = Some i \<and>
         result s1 = Some \<lparr>needsNgZone = True, ref_injector = Some i, ref_promise = Some p\<rparr> \<and>
         (\<exists>st2. afterPromiseAll K info ng1_injector A e z' settled
                  (st0\<lparr>ranAsync := True, awaiting := Some (Thenable p, Thenable p)\<rparr>) = Inr st2 \<and>
                awaiting st2 = None \<and>
                trace st2 = trace st0 @ zoneCalls K ng1_injector z' i st0 @
                  ResolveComponentFactory i # adapterCalls K info ng1_injector i f @
                  [EvalAsync]))) \<and>
   (microtasks s0 = [] \<longrightarrow>
      fst (runMicrotask N (snd (lazyModuleRefFactory n (Fulfilled m) p s0))) = Some (Inr (N m))) \<and>
   (runMicrotask N s = (Some out, s') \<and> closure_injector s' = Some i \<and> result s' = Some r \<and>
    servesLazyModule K info ng1_injector r \<and>
    resolveComponentFactory A i (component info) = Some f \<longrightarrow>
      (\<exists>st1. link K info ng1_injector A e None z st0 = Inr st1 \<and>
             awaiting st1 = None \<and>
             trace st1 = trace st0 @ zoneCalls K ng1_injector z i st0 @
               ResolveComponentFactory i # adapterCalls K info ng1_injector i f))"
proof (intro conjI impI)
  assume "servesLazyModule K info ng1_injector (fst (lazyModuleRefFactory n b p s0))"
  from servesLazyModule_lookup [OF this]
  have mi: "moduleInjectorOf K info ng1_injector None = Inr (Some (Thenable p))"
    by (simp add: lazyModuleRefFactory_result or_else_def)
  show "link K info ng1_injector A e None z st0 =
        Inr (st0\<lparr>ranAsync := True, awaiting := Some (Thenable p, Thenable p)\<rparr>)"
    by (rule link_later [OF mi final_none(1) final_none(2)]) (simp add: thenable_cases)
next
  assume "settled p = None"
  then show "afterPromiseAll K info ng1_injector A e z' settled
           (st0\<lparr>ranAsync := True, awaiting := Some (Thenable p, Thenable p)\<rparr>) =
         Inr (st0\<lparr>ranAsync := True, awaiting := Some (Thenable p, Thenable p)\<rparr>)"
    by (intro afterPromiseAll_waits [of _ "Thenable p" "Thenable p"]) (simp_all add: fulfilled_def)
next
  assume "runMicrotask N (snd (lazyModuleRefFactory n b p s0)) = (Some (Inr i), s1) \<and>
       settled p = Some i \<and> resolveComponentFactory A i (component info) = Some f"
  then show "closure_injector s1 = Some i" by (blast intro: runMicrotask_returns(1))
next
  assume "runMicrotask N (snd (lazyModuleRefFactory n b p s0)) = (Some (Inr i), s1) \<and>
       settled p = Some i \<and> resolveComponentFactory A i (component info) = Some f"
  then have "runMicrotask N (snd (lazyModuleRefFactory n b p s0)) = (Some (Inr i), s1)" by simp
  from runMicrotask_returns(2) [OF this]
  show "result s1 = Some \<lparr>needsNgZone = True, ref_injector = Some i, ref_promise = Some p\<rparr>"
    by (simp add: lazyModuleRefFactory_state)
next
  assume a: "runMicrotask N (snd (lazyModuleRefFactory n b p s0)) = (Some (Inr i), s1) \<and>
       settled p = Some i \<and> resolveComponentFactory A i (component info) = Some f"
  then have s: "fulfilled settled (Thenable p) = Some i" by (simp add: fulfilled_def)
  from a have f: "resolveComponentFactory A i (component info) = Some f" by simp
  from afterPromiseAll_runs [OF _ _ s s f,
      of "st0\<lparr>ranAsync := True, awaiting := Some (Thenable p, Thenable p)\<rparr>" K ng1_injector e z']
  show "\<exists>st2. afterPromiseAll K info ng1_injector A e z' settled
                  (st0\<lparr>ranAsync := True, awaiting := Some (Thenable p, Thenable p)\<rparr>) = Inr st2 \<and>
                awaiting st2 = None \<and>
                trace st2 = trace st0 @ zoneCalls K ng1_injector z' i st0 @
                  ResolveComponentFactory i # adapterCalls K info ng1_injector i f @
                  [EvalAsync]"
    by (simp add: zoneCalls_frame)
next
  assume "microtasks s0 = []"
  then show "fst (runMicrotask N (snd (lazyModuleRefFactory n (Fulfilled m) p s0))) =
             Some (Inr (N m))"
    by (intro runMicrotask_first [where n = n]) (simp_all add: lazyModuleRefFactory_state)
next
  assume a: "runMicrotask N s = (Some out, s') \<and> closure_injector s' = Some i \<and>
    result s' = Some r \<and> servesLazyModule K info ng1_injector r \<and>
    resolveComponentFactory A i (component info) = Some f"
  then have "ref_injector r = Some i" by (blast intro: runMicrotask_stores)
  with a servesLazyModule_lookup [of K info ng1_injector r]
  have mi: "moduleInjectorOf K info ng1_injector None = Inr (Some (Injector i))"
    by (simp add: or_else_def)
  from a have "resolveComponentFactory A i (component info) = Some f" by simp
  then show "\<exists>st1. link K info ng1_injector A e None z st0 = Inr st1 \<and>
             awaiting st1 = None \<and>
             trace st1 = trace st0 @ zoneCalls K ng1_injector z i st0 @
               ResolveComponentFactory i # adapterCalls K info ng1_injector i f"
    by (rule link_now [OF mi final_none(1) final_none(2)])
qed

lemma microtask_eval:
  "fst (runMicrotask Suc (snd syncBootstrap)) = Some (Inr 6)"
  "closure_injector (snd (runMicrotask Suc (snd syncBootstrap))) = Some 6"
  "result (snd (runMicrotask Suc (snd syncBootstrap))) =
     Some \<lparr>needsNgZone = True, ref_injector = Some 6, ref_promise = Some 0\<rparr>"
  "tempInjectorRef (snd (runMicrotask Suc (snd syncBootstrap))) = None"
  by (simp_all add: runMicrotask_def bootstrapThen_def injectorFactory_def Let_def
        syncBootstrap_eval split_beta)

lemma laterGetInjector_serves:
  "servesLazyModule exampleConstants (exampleInfo None) laterGetInjector
     \<lparr>needsNgZone = True, ref_injector = Some 6, ref_promise = Some 0\<rparr>"
  by (simp add: servesLazyModule_def laterGetInjector_def serve_def microtask_eval
        exampleInfo_def isNgUpgradeLite_def getUpgradeAppType_def getDowngradedModuleCount_def
        has_def lazyApp_def exampleConstants_def)

lemma deferred_eval:
  "trace (initialLink\<lparr>ranAsync := True, awaiting := Some (Thenable 0, Thenable 0)\<rparr>) = []"
  "ngZone (initialLink\<lparr>ranAsync := True, awaiting := Some (Thenable 0, Thenable 0)\<rparr>) = None"
  "trace initialLink = []"
  "ngZone initialLink = None"
  by (simp_all add: initialLink_def)

theorem lazy_module_instantiation_witness:
  "servesLazyModule exampleConstants (exampleInfo None) firstGetInjector (fst syncBootstrap) \<and>
   link exampleConstants (exampleInfo None) firstGetInjector exampleAngular 0 None True initialLink
     = Inr (initialLink\<lparr>ranAsync := True, awaiting := Some (Thenable 0, Thenable 0)\<rparr>) \<and>
   afterPromiseAll exampleConstants (exampleInfo None) firstGetInjector exampleAngular 0 True
       notSettled (initialLink\<lparr>ranAsync := True, awaiting := Some (Thenable 0, Thenable 0)\<rparr>)
     = Inr (initialLink\<lparr>ranAsync := True, awaiting := Some (Thenable 0, Thenable 0)\<rparr>) \<and>
   microtasks initialLazyModule = [] \<and>
   fst (runMicrotask Suc (snd syncBootstrap)) = Some (Inr 6) \<and>
   closure_injector (snd (runMicrotask Suc (snd syncBootstrap))) = Some 6 \<and>
   result (snd (runMicrotask Suc (snd syncBootstrap))) =
     Some \<lparr>needsNgZone = True, ref_injector = Some 6, ref_promise = Some 0\<rparr> \<and>
   (\<exists>st2. afterPromiseAll exampleConstants (exampleInfo None) firstGetInjector exampleAngular 0 True
            (settledWith 0 6)
            (initialLink\<lparr>ranAsync := True, awaiting := Some (Thenable 0, Thenable 0)\<rparr>) = Inr st2 \<and>
          awaiting st2 = None \<and>
          trace st2 = [GetNgZone 6, ResolveComponentFactory 6, NewAdapter 6 42, CompileContents,
                       CreateComponent, SetupInputs True None, SetupOutputs, RegisterCleanup,
                       EvalAsync]) \<and>
   servesLazyModule exampleConstants (exampleInfo None) laterGetInjector
     \<lparr>needsNgZone = True, ref_injector = Some 6, ref_promise = Some 0\<rparr> \<and>
   (\<exists>st1. link exampleConstants (exampleInfo None) laterGetInjector exampleAngular 0 None True
            initialLink = Inr st1 \<and>
          awaiting st1 = None \<and>
          trace st1 = [GetNgZone 6, ResolveComponentFactory 6, NewAdapter 6 42, CompileContents,
                       CreateComponent, SetupInputs True None, SetupOutputs, RegisterCleanup])"
proof -
  note waiting = lazy_module_instantiation [THEN conjunct1,
      of exampleConstants "exampleInfo None" firstGetInjector 0 "Fulfilled 5" 0
         initialLazyModule exampleAngular 0 True initialLink notSettled True]
  note first = lazy_module_instantiation [THEN conjunct1,
      of exampleConstants "exampleInfo None" firstGetInjector 0 "Fulfilled 5" 0
         initialLazyModule exampleAngular 0 True initialLink "settledWith 0 6" True Suc 6
         "snd (runMicrotask Suc (snd syncBootstrap))" 42]
  note job = lazy_module_instantiation [THEN conjunct2, THEN conjunct1,
      of initialLazyModule Suc 0 5 0]
  note later = lazy_module_instantiation [THEN conjunct2, THEN conjunct2,
      of Suc "snd syncBootstrap" "Inr 6" "snd (runMicrotask Suc (snd syncBootstrap))" 6
         "\<lparr>needsNgZone = True, ref_injector = Some 6, ref_promise = Some 0\<rparr>"
         exampleConstants "exampleInfo None" laterGetInjector exampleAngular 42 0 True initialLink]
  have empty: "microtasks initialLazyModule = []" by (simp add: initialLazyModule_def)
  have j: "fst (runMicrotask Suc (snd syncBootstrap)) = Some (Inr 6)"
    using job empty by (simp add: syncBootstrap_def)
  then have run: "runMicrotask Suc (snd syncBootstrap) =
               (Some (Inr 6), snd (runMicrotask Suc (snd syncBootstrap)))"
    by (simp add: prod_eq_iff)
  have lite1: "isNgUpgradeLite exampleConstants firstGetInjector"
    using firstGetInjector_serves by (simp add: servesLazyModule_def Let_def)
  have lite: "isNgUpgradeLite exampleConstants laterGetInjector"
    using laterGetInjector_serves by (simp add: servesLazyModule_def Let_def)
  have serves: "servesLazyModule exampleConstants (exampleInfo None) firstGetInjector
                  (fst (lazyModuleRefFactory 0 (Fulfilled 5) 0 initialLazyModule))"
    using firstGetInjector_serves by (simp add: syncBootstrap_def)
  have a: "link exampleConstants (exampleInfo None) firstGetInjector exampleAngular 0 None True
             initialLink
           = Inr (initialLink\<lparr>ranAsync := True, awaiting := Some (Thenable 0, Thenable 0)\<rparr>)"
    using waiting serves by blast
  have w: "afterPromiseAll exampleConstants (exampleInfo None) firstGetInjector exampleAngular 0 True
       notSettled (initialLink\<lparr>ranAsync := True, awaiting := Some (Thenable 0, Thenable 0)\<rparr>)
     = Inr (initialLink\<lparr>ranAsync := True, awaiting := Some (Thenable 0, Thenable 0)\<rparr>)"
    using waiting serves by (simp add: notSettled_def)
  have run0: "runMicrotask Suc (snd (lazyModuleRefFactory 0 (Fulfilled 5) 0 initialLazyModule)) =
               (Some (Inr 6), snd (runMicrotask Suc (snd syncBootstrap)))"
    using run by (simp add: syncBootstrap_def)
  have s6: "settledWith 0 6 0 = Some (6::nat)" by (simp add: settledWith_def)
  from first serves run0 s6 example_factory
  have c: "closure_injector (snd (runMicrotask Suc (snd syncBootstrap))) = Some 6 \<and>
   result (snd (runMicrotask Suc (snd syncBootstrap))) =
     Some \<lparr>needsNgZone = True, ref_injector = Some 6, ref_promise = Some 0\<rparr> \<and>
   (\<exists>st2. afterPromiseAll exampleConstants (exampleInfo None) firstGetInjector exampleAngular 0 True
            (settledWith 0 6)
            (initialLink\<lparr>ranAsync := True, awaiting := Some (Thenable 0, Thenable 0)\<rparr>) = Inr st2 \<and>
          awaiting st2 = None \<and>
          trace st2 = trace initialLink @
             zoneCalls exampleConstants firstGetInjector True 6 initialLink @
             ResolveComponentFactory 6 #
             adapterCalls exampleConstants (exampleInfo None) firstGetInjector 6 42 @ [EvalAsync])"
    by blast
  have t: "trace initialLink @
             zoneCalls exampleConstants firstGetInjector True 6 initialLink @
             ResolveComponentFactory 6 #
             adapterCalls exampleConstants (exampleInfo None) firstGetInjector 6 42 @ [EvalAsync]
           = [GetNgZone 6, ResolveComponentFactory 6, NewAdapter 6 42, CompileContents,
                       CreateComponent, SetupInputs True None, SetupOutputs, RegisterCleanup,
                       EvalAsync]"
    by (simp add: zoneCalls_def adapterCalls_def lite1 example_digest deferred_eval)
  have b: "\<exists>st1. link exampleConstants (exampleInfo None) laterGetInjector exampleAngular 0 None True
            initialLink = Inr st1 \<and>
          awaiting st1 = None \<and>
          trace st1 = [GetNgZone 6, ResolveComponentFactory 6, NewAdapter 6 42, CompileContents,
                       CreateComponent, SetupInputs True None, SetupOutputs, RegisterCleanup]"
    using later run microtask_eval(2,3) laterGetInjector_serves
    by (simp add: example_factory zoneCalls_def adapterCalls_def lite example_digest
          initialLink_def)
  from a w empty j c [unfolded t] b firstGetInjector_serves laterGetInjector_serves
  show ?thesis by blast
qed

end
